theory Spec2Isabelle
  imports Complex_Main
begin

unbundle bit_operations_syntax

section \<open>Register cell (plc/modbus_register.py)\<close>

text \<open>
  A \<open>ModbusRegister\<close> holds one Python integer, \<open>self.value\<close>. The write-through to the
  Modbus slave (\<open>sync_to_device\<close>) goes to the external device and leaves the in-memory
  word as it is, so the cell is modelled by its word. Python integers are unbounded:
  the word is an \<open>int\<close>.
\<close>

type_synonym ModbusRegister = int

definition set_bit_cell :: "ModbusRegister \<Rightarrow> nat \<Rightarrow> bool \<Rightarrow> ModbusRegister" where
  "set_bit_cell v bit_num st =
     (if st then v OR push_bit bit_num 1 else v AND NOT (push_bit bit_num 1))"

definition get_bit_cell :: "ModbusRegister \<Rightarrow> nat \<Rightarrow> int" where
  "get_bit_cell v bit_num = drop_bit bit_num v AND 1"

definition reset_all_bits :: "ModbusRegister \<Rightarrow> ModbusRegister" where
  "reset_all_bits v = 0"

section \<open>Device driver (plc/plc.py)\<close>

record PLC =
  modbus_register_cmd :: ModbusRegister
  modbus_register_status :: ModbusRegister
  modbus_register_bank_counter :: ModbusRegister
  modbus_register_bottle_counter :: ModbusRegister
  modbus_register_bottle_percent :: ModbusRegister
  modbus_register_bank_percent :: ModbusRegister

text \<open>What the poller reads from the device in one pass of \<open>update_data\<close>.\<close>

record device_regs =
  dev_status :: int
  dev_bank_counter :: int
  dev_bottle_counter :: int
  dev_bottle_percent :: int
  dev_bank_percent :: int

definition update_data :: "device_regs \<Rightarrow> PLC \<Rightarrow> PLC" where
  "update_data d p = p\<lparr>modbus_register_status := dev_status d,
                       modbus_register_bank_counter := dev_bank_counter d,
                       modbus_register_bottle_counter := dev_bottle_counter d,
                       modbus_register_bottle_percent := dev_bottle_percent d,
                       modbus_register_bank_percent := dev_bank_percent d\<rparr>"

definition get_state_veil :: "PLC \<Rightarrow> int" where
  "get_state_veil p = get_bit_cell (modbus_register_status p) 0"

definition get_state_left_sensor_carriage :: "PLC \<Rightarrow> int" where
  "get_state_left_sensor_carriage p = get_bit_cell (modbus_register_status p) 1"

definition get_state_center_sensor_carriage :: "PLC \<Rightarrow> int" where
  "get_state_center_sensor_carriage p = get_bit_cell (modbus_register_status p) 2"

definition get_state_right_sensor_carriage :: "PLC \<Rightarrow> int" where
  "get_state_right_sensor_carriage p = get_bit_cell (modbus_register_status p) 3"

definition get_state_weight_error :: "PLC \<Rightarrow> int" where
  "get_state_weight_error p = get_bit_cell (modbus_register_status p) 5"

definition get_bank_exist :: "PLC \<Rightarrow> int" where
  "get_bank_exist p = get_bit_cell (modbus_register_status p) 6"

definition get_bottle_exist :: "PLC \<Rightarrow> int" where
  "get_bottle_exist p = get_bit_cell (modbus_register_status p) 7"

definition get_weight_too_small :: "PLC \<Rightarrow> int" where
  "get_weight_too_small p = get_bit_cell (modbus_register_status p) 8"

definition get_left_movement_error :: "PLC \<Rightarrow> int" where
  "get_left_movement_error p = get_bit_cell (modbus_register_status p) 12"

definition get_right_movement_error :: "PLC \<Rightarrow> int" where
  "get_right_movement_error p = get_bit_cell (modbus_register_status p) 13"

definition get_bank_count :: "PLC \<Rightarrow> int" where
  "get_bank_count p = modbus_register_bank_counter p"

definition get_bottle_count :: "PLC \<Rightarrow> int" where
  "get_bottle_count p = modbus_register_bottle_counter p"

definition get_bottle_fill_percent :: "PLC \<Rightarrow> int" where
  "get_bottle_fill_percent p = modbus_register_bottle_percent p"

definition get_bank_fill_percent :: "PLC \<Rightarrow> int" where
  "get_bank_fill_percent p = modbus_register_bank_percent p"

definition cmd_set :: "nat \<Rightarrow> bool \<Rightarrow> PLC \<Rightarrow> PLC" where
  "cmd_set n st p = p\<lparr>modbus_register_cmd := set_bit_cell (modbus_register_cmd p) n st\<rparr>"

definition cmd_weight_error_reset :: "PLC \<Rightarrow> PLC" where
  "cmd_weight_error_reset = cmd_set 1 True"

definition cmd_reset_bank_counters :: "PLC \<Rightarrow> PLC" where
  "cmd_reset_bank_counters = cmd_set 2 True"

definition cmd_reset_bottle_counters :: "PLC \<Rightarrow> PLC" where
  "cmd_reset_bottle_counters = cmd_set 3 True"

definition cmd_force_move_carriage_left :: "PLC \<Rightarrow> PLC" where
  "cmd_force_move_carriage_left = cmd_set 4 True"

definition cmd_force_move_carriage_right :: "PLC \<Rightarrow> PLC" where
  "cmd_force_move_carriage_right = cmd_set 5 True"

definition cmd_radxa_detected_bank :: "PLC \<Rightarrow> PLC" where
  "cmd_radxa_detected_bank = cmd_set 6 True"

definition cmd_radxa_detected_bottle :: "PLC \<Rightarrow> PLC" where
  "cmd_radxa_detected_bottle = cmd_set 7 True"

definition cmd_radxa_stop_detected_bank :: "PLC \<Rightarrow> PLC" where
  "cmd_radxa_stop_detected_bank = cmd_set 6 False"

definition cmd_radxa_stop_detected_bottle :: "PLC \<Rightarrow> PLC" where
  "cmd_radxa_stop_detected_bottle = cmd_set 7 False"

definition cmd_reset_weight_reading :: "PLC \<Rightarrow> PLC" where
  "cmd_reset_weight_reading = cmd_set 8 True"

definition cmd_full_clear_register :: "PLC \<Rightarrow> PLC" where
  "cmd_full_clear_register p = p\<lparr>modbus_register_cmd := reset_all_bits (modbus_register_cmd p)\<rparr>"

section \<open>JSON values and what goes over the sockets\<close>

text \<open>
  The values \<open>json.loads\<close> returns; \<open>JNull\<close> is Python's \<open>None\<close>, which is also what
  \<open>dict.get\<close> gives for a missing key.
\<close>

datatype jval =
    JNull
  | JBool bool
  | JInt int
  | JFloat real
  | JStr string
  | JList "jval list"
  | JDict "(string \<times> jval) list"

text \<open>Python's truth value of an object (\<open>if x:\<close>, \<open>not x\<close>).\<close>

fun truthy :: "jval \<Rightarrow> bool" where
  "truthy JNull = False"
| "truthy (JBool b) = b"
| "truthy (JInt n) = (n \<noteq> 0)"
| "truthy (JFloat r) = (r \<noteq> 0)"
| "truthy (JStr s) = (s \<noteq> [])"
| "truthy (JList xs) = (xs \<noteq> [])"
| "truthy (JDict d) = (d \<noteq> [])"

definition dict_get :: "(string \<times> jval) list \<Rightarrow> string \<Rightarrow> jval" where
  "dict_get d k = (case map_of d k of None \<Rightarrow> JNull | Some v \<Rightarrow> v)"

definition dict_set :: "(string \<times> jval) list \<Rightarrow> string \<Rightarrow> jval \<Rightarrow> (string \<times> jval) list" where
  "dict_set d k v = (k, v) # filter (\<lambda>kv. fst kv \<noteq> k) d"

text \<open>
  A frame handed to \<open>send_to_client\<close>: a bare string, or an event built by
  \<open>create_event\<close> (its name and its data; the wall-clock \<open>timestamp\<close> field of the JSON
  text is left out).
\<close>

datatype payload = Text string | Event string "(string \<times> jval) list"

section \<open>Peer hub (websocket/server.py)\<close>

text \<open>
  One entry of \<open>client_messages\<close>. The entry is a Python dict whose key
  \<open>just_connected\<close> may be missing: \<open>None\<close> stands for the missing key.
\<close>

record slot =
  message :: string
  timestamp :: real
  just_connected :: "bool option"

text \<open>
  \<open>outbox\<close> lists the calls of \<open>send_to_client\<close> in order (peer name and frame); the
  delivery itself belongs to the hub's event loop.
\<close>

record WebSocket =
  clients :: "string set"
  client_messages :: "string \<rightharpoonup> slot"
  outbox :: "(string \<times> payload) list"

text \<open>
  \<open>_handler\<close>, after the first frame gave \<open>client_name\<close>: an empty name closes the
  connection, any other name is registered with a fresh slot.
\<close>

definition register_client :: "real \<Rightarrow> string \<Rightarrow> WebSocket \<Rightarrow> WebSocket" where
  "register_client now client_name h =
     (if client_name = [] then h
      else h\<lparr>clients := insert client_name (clients h),
             client_messages := (client_messages h)(client_name \<mapsto>
               \<lparr>message = [], timestamp = now, just_connected = Some True\<rparr>)\<rparr>)"

text \<open>\<open>_handler\<close>, one turn of its receive loop: the slot is replaced by a new dict.\<close>

definition on_message :: "real \<Rightarrow> string \<Rightarrow> string \<Rightarrow> WebSocket \<Rightarrow> WebSocket" where
  "on_message now client_name msg h =
     h\<lparr>client_messages := (client_messages h)(client_name \<mapsto>
         \<lparr>message = msg, timestamp = now, just_connected = None\<rparr>)\<rparr>"

text \<open>\<open>_handler\<close>, its \<open>finally\<close> block.\<close>

definition disconnect :: "string \<Rightarrow> WebSocket \<Rightarrow> WebSocket" where
  "disconnect client_name h =
     h\<lparr>clients := clients h - {client_name},
       client_messages := (client_messages h)(client_name := None)\<rparr>"

definition send_to_client :: "string \<Rightarrow> payload \<Rightarrow> WebSocket \<Rightarrow> WebSocket" where
  "send_to_client client_name msg h = h\<lparr>outbox := outbox h @ [(client_name, msg)]\<rparr>"

definition get_command :: "string \<Rightarrow> WebSocket \<Rightarrow> string \<times> WebSocket" where
  "get_command client_name h =
     (case client_messages h client_name of
        Some s \<Rightarrow> (message s,
                   h\<lparr>client_messages := (client_messages h)(client_name \<mapsto> s\<lparr>message := []\<rparr>)\<rparr>)
      | None \<Rightarrow> ([], h))"

definition is_client_just_connected :: "string \<Rightarrow> WebSocket \<Rightarrow> bool \<times> WebSocket" where
  "is_client_just_connected client_name h =
     (case client_messages h client_name of
        Some s \<Rightarrow>
          (if (case just_connected s of None \<Rightarrow> False | Some b \<Rightarrow> b)
           then (True, h\<lparr>client_messages :=
                          (client_messages h)(client_name \<mapsto> s\<lparr>just_connected := Some False\<rparr>)\<rparr>)
           else (False, h))
      | None \<Rightarrow> (False, h))"

definition get_state :: "string \<Rightarrow> WebSocket \<Rightarrow> string" where
  "get_state client_name h =
     (case client_messages h client_name of Some s \<Rightarrow> message s | None \<Rightarrow> [])"

section \<open>Coordinator (plc/application.py)\<close>

datatype AppState = IDLE | WAITING_VISION | DUMPING_PLASTIC | DUMPING_ALUMINUM | ERROR

fun state_value :: "AppState \<Rightarrow> string" where
  "state_value IDLE = ''idle''"
| "state_value WAITING_VISION = ''waiting_vision''"
| "state_value DUMPING_PLASTIC = ''dumping_plastic''"
| "state_value DUMPING_ALUMINUM = ''dumping_aluminum''"
| "state_value ERROR = ''error''"

text \<open>The exceptions the main loop's body can raise; \<open>run\<close> catches them and stops.\<close>

datatype py_error =
    AttributeError | TypeError | KeyError | RecursionError | UnicodeDecodeError | ValueError

text \<open>
  The fields of \<open>Application\<close> that the main loop reads or writes. \<open>photo_workers\<close> counts
  the worker threads started by \<open>handle_get_photo\<close>; what a worker does afterwards runs
  beside the main loop and is outside this model. Times are the readings of
  \<open>time.time()\<close>, taken as real numbers.
\<close>

record Application =
  plc :: PLC
  websocket_server :: WebSocket
  device_config :: jval
  door_locked :: bool
  state :: AppState
  current_plc_detection :: "string option"
  vision_request_time :: "real option"
  dump_started_time :: "real option"
  prev_veil_state :: int
  veil_just_cleared :: bool
  veil_cleared_time :: "real option"
  carriage_moving_bottle :: bool
  carriage_moving_bank :: bool
  carriage_moving_start_time :: "real option"
  prev_receiver_state :: int
  prev_weight_error :: int
  prev_weight_too_small :: int
  prev_left_movement_error :: int
  prev_right_movement_error :: int
  inference_requested :: bool
  pending_vision_response :: "string option"
  photo_workers :: nat

definition vision_timeout :: real where "vision_timeout = 2.0"
definition dump_timeout :: real where "dump_timeout = 3.0"
definition carriage_reset_timeout :: real where "carriage_reset_timeout = 2.0"

text \<open>\<open>__init__\<close>, with the driver and the hub that \<open>setup\<close> creates.\<close>

definition new_PLC :: PLC where
  "new_PLC = \<lparr>modbus_register_cmd = 0, modbus_register_status = 0,
              modbus_register_bank_counter = 0, modbus_register_bottle_counter = 0,
              modbus_register_bottle_percent = 0, modbus_register_bank_percent = 0\<rparr>"

definition new_WebSocket :: WebSocket where
  "new_WebSocket = \<lparr>clients = {}, client_messages = Map.empty, outbox = []\<rparr>"

definition new_Application :: Application where
  "new_Application =
     \<lparr>plc = new_PLC, websocket_server = new_WebSocket, device_config = JNull,
      door_locked = False, state = IDLE, current_plc_detection = None,
      vision_request_time = None, dump_started_time = None, prev_veil_state = 0,
      veil_just_cleared = False, veil_cleared_time = None,
      carriage_moving_bottle = False, carriage_moving_bank = False,
      carriage_moving_start_time = None, prev_receiver_state = 0, prev_weight_error = 0,
      prev_weight_too_small = 0, prev_left_movement_error = 0,
      prev_right_movement_error = 0, inference_requested = False,
      pending_vision_response = None, photo_workers = 0\<rparr>"

text \<open>
  The human-readable texts of the \<open>hardware_error\<close> events are Cyrillic in the source;
  they are given here as the bytes of their UTF-8 encoding.
\<close>

definition msg_carriage_left_timeout :: string where
  "msg_carriage_left_timeout = map char_of ([
     208, 162, 208, 176, 208, 185, 208, 188, 208, 176, 209, 131, 209, 130, 32, 208, 180,
     208, 178, 208, 184, 208, 182, 208, 181, 208, 189, 208, 184, 209, 143, 32, 208, 186,
     208, 176, 209, 128, 208, 181, 209, 130, 208, 186, 208, 184, 32, 208, 178, 208, 187,
     208, 181, 208, 178, 208, 190] :: nat list)"

definition msg_carriage_right_timeout :: string where
  "msg_carriage_right_timeout = map char_of ([
     208, 162, 208, 176, 208, 185, 208, 188, 208, 176, 209, 131, 209, 130, 32, 208, 180,
     208, 178, 208, 184, 208, 182, 208, 181, 208, 189, 208, 184, 209, 143, 32, 208, 186,
     208, 176, 209, 128, 208, 181, 209, 130, 208, 186, 208, 184, 32, 208, 178, 208, 191,
     209, 128, 208, 176, 208, 178, 208, 190] :: nat list)"

definition msg_weight_error :: string where
  "msg_weight_error = map char_of ([
     208, 158, 209, 136, 208, 184, 208, 177, 208, 186, 208, 176, 32, 208, 178, 208, 183,
     208, 178, 208, 181, 209, 136, 208, 184, 208, 178, 208, 176, 208, 189, 208, 184, 209,
     143] :: nat list)"

definition msg_weight_too_small :: string where
  "msg_weight_too_small = map char_of ([
     208, 146, 208, 181, 209, 129, 32, 209, 129, 208, 187, 208, 184, 209, 136, 208, 186,
     208, 190, 208, 188, 32, 208, 188, 208, 176, 208, 187, 208, 181, 208, 189, 209, 140,
     208, 186, 208, 184, 208, 185] :: nat list)"

definition msg_left_movement_error :: string where
  "msg_left_movement_error = map char_of ([
     208, 158, 209, 136, 208, 184, 208, 177, 208, 186, 208, 176, 32, 208, 180, 208, 178,
     208, 184, 208, 182, 208, 181, 208, 189, 208, 184, 209, 143, 32, 208, 186, 208, 176,
     209, 128, 208, 181, 209, 130, 208, 186, 208, 184, 32, 208, 178, 208, 187, 208, 181,
     208, 178, 208, 190] :: nat list)"

definition msg_right_movement_error :: string where
  "msg_right_movement_error = map char_of ([
     208, 158, 209, 136, 208, 184, 208, 177, 208, 186, 208, 176, 32, 208, 180, 208, 178,
     208, 184, 208, 182, 208, 181, 208, 189, 208, 184, 209, 143, 32, 208, 186, 208, 176,
     209, 128, 208, 181, 209, 130, 208, 186, 208, 184, 32, 208, 178, 208, 191, 209, 128,
     208, 176, 208, 178, 208, 190] :: nat list)"

subsection \<open>Events\<close>

definition send_event_to_app ::
  "string \<Rightarrow> (string \<times> jval) list \<Rightarrow> Application \<Rightarrow> Application" where
  "send_event_to_app event_name data a =
     a\<lparr>websocket_server := send_to_client ''app'' (Event event_name data) (websocket_server a)\<rparr>"

definition check_receiver_state :: "Application \<Rightarrow> Application" where
  "check_receiver_state a =
     (let bottle = get_bottle_exist (plc a);
          bank = get_bank_exist (plc a);
          current_state = (if bottle \<noteq> 0 then bottle else bank)
      in if current_state \<noteq> prev_receiver_state a
         then (if current_state \<noteq> 0
               then send_event_to_app ''receiver_not_empty''
                      [(''bottle_exist'', JInt bottle), (''bank_exist'', JInt bank)] a
               else send_event_to_app ''receiver_empty'' [] a)
              \<lparr>prev_receiver_state := current_state\<rparr>
         else a)"

definition check_hardware_errors :: "Application \<Rightarrow> Application" where
  "check_hardware_errors a0 =
     (let weight_error = get_state_weight_error (plc a0);
          a1 = (if weight_error \<noteq> 0 \<and> prev_weight_error a0 = 0
                then send_event_to_app ''hardware_error''
                       [(''error_code'', JStr ''weight_error''), (''message'', JStr msg_weight_error)] a0
                else a0)\<lparr>prev_weight_error := weight_error\<rparr>;
          weight_small = get_weight_too_small (plc a1);
          a2 = (if weight_small \<noteq> 0 \<and> prev_weight_too_small a1 = 0
                then send_event_to_app ''hardware_error''
                       [(''error_code'', JStr ''weight_too_small''),
                        (''message'', JStr msg_weight_too_small)] a1
                else a1)\<lparr>prev_weight_too_small := weight_small\<rparr>;
          left_error = get_left_movement_error (plc a2);
          a3 = (if left_error \<noteq> 0 \<and> prev_left_movement_error a2 = 0
                then send_event_to_app ''hardware_error''
                       [(''error_code'', JStr ''left_movement_error''),
                        (''message'', JStr msg_left_movement_error)] a2
                else a2)\<lparr>prev_left_movement_error := left_error\<rparr>;
          right_error = get_right_movement_error (plc a3)
      in (if right_error \<noteq> 0 \<and> prev_right_movement_error a3 = 0
          then send_event_to_app ''hardware_error''
                 [(''error_code'', JStr ''right_movement_error''),
                  (''message'', JStr msg_right_movement_error)] a3
          else a3)\<lparr>prev_right_movement_error := right_error\<rparr>)"

subsection \<open>Dumping states\<close>

record dumping_entry =
  sensor_getter :: "PLC \<Rightarrow> int"
  container_kind :: string
  counter_getter :: "PLC \<Rightarrow> int"
  error_code :: string
  error_message :: string

text \<open>
  \<open>_dumping_config\<close>; the entry's key \<open>type\<close> is the field \<open>container_kind\<close>. A state
  without an entry is the dict's \<open>KeyError\<close>.
\<close>

fun dumping_config :: "AppState \<Rightarrow> dumping_entry option" where
  "dumping_config DUMPING_PLASTIC =
     Some \<lparr>sensor_getter = get_state_left_sensor_carriage, container_kind = ''plastic'',
           counter_getter = get_bottle_count, error_code = ''carriage_left_timeout'',
           error_message = msg_carriage_left_timeout\<rparr>"
| "dumping_config DUMPING_ALUMINUM =
     Some \<lparr>sensor_getter = get_state_right_sensor_carriage, container_kind = ''aluminum'',
           counter_getter = get_bank_count, error_code = ''carriage_right_timeout'',
           error_message = msg_carriage_right_timeout\<rparr>"
| "dumping_config _ = None"

definition handle_dumping_state ::
  "real \<Rightarrow> AppState \<Rightarrow> Application \<Rightarrow> py_error + Application" where
  "handle_dumping_state now st a =
     (case dumping_config st of
        None \<Rightarrow> Inl KeyError
      | Some config \<Rightarrow>
          if sensor_getter config (plc a) = 1 then
            (let a1 = a\<lparr>plc := cmd_full_clear_register (plc a), state := IDLE,
                        dump_started_time := None\<rparr>
             in Inr (send_event_to_app ''container_accepted''
                       [(''container_type'', JStr (container_kind config)),
                        (''counter'', JInt (counter_getter config (plc a1)))] a1))
          else
            (case dump_started_time a of
               None \<Rightarrow> Inl TypeError
             | Some t0 \<Rightarrow>
                 if now - t0 > dump_timeout then
                   Inr (send_event_to_app ''hardware_error''
                          [(''error_code'', JStr (error_code config)),
                           (''message'', JStr (error_message config))]
                          (a\<lparr>plc := cmd_full_clear_register (plc a), state := ERROR,
                             dump_started_time := None\<rparr>))
                 else Inr a))"

subsection \<open>Latch clearing\<close>

text \<open>
  The two timeout checks at the top of the loop body. \<open>self.carriage_moving_start_time\<close>
  is tested for truth, which \<open>None\<close> and the reading \<open>0.0\<close> fail.
\<close>

definition check_carriage_bottle :: "real \<Rightarrow> Application \<Rightarrow> Application" where
  "check_carriage_bottle now a =
     (case carriage_moving_start_time a of
        None \<Rightarrow> a
      | Some t0 \<Rightarrow>
          if carriage_moving_bottle a \<and> t0 \<noteq> 0 \<and> now - t0 > carriage_reset_timeout
          then a\<lparr>plc := cmd_radxa_stop_detected_bottle (plc a),
                 carriage_moving_bottle := False, carriage_moving_start_time := None\<rparr>
          else a)"

definition check_carriage_bank :: "real \<Rightarrow> Application \<Rightarrow> Application" where
  "check_carriage_bank now a =
     (case carriage_moving_start_time a of
        None \<Rightarrow> a
      | Some t0 \<Rightarrow>
          if carriage_moving_bank a \<and> t0 \<noteq> 0 \<and> now - t0 > carriage_reset_timeout
          then a\<lparr>plc := cmd_radxa_stop_detected_bank (plc a),
                 carriage_moving_bank := False, carriage_moving_start_time := None\<rparr>
          else a)"

text \<open>The two checks in the order in which the loop body runs them.\<close>

definition check_carriage_timeouts :: "real \<Rightarrow> Application \<Rightarrow> Application" where
  "check_carriage_timeouts now a = check_carriage_bank now (check_carriage_bottle now a)"

subsection \<open>Vision-response fusion\<close>

definition handle_vision_response_with_events ::
  "real \<Rightarrow> string \<Rightarrow> Application \<Rightarrow> Application" where
  "handle_vision_response_with_events now vision_response a =
     (if vision_response = ''none'' then
        send_event_to_app ''container_not_recognized'' [] a
      else if current_plc_detection a = Some ''plastic'' \<and> vision_response = ''plastic'' then
        send_event_to_app ''container_recognized''
          [(''container_type'', JStr ''plastic''), (''confidence'', JFloat 1.0)]
          (a\<lparr>plc := cmd_radxa_detected_bottle (plc a), carriage_moving_bottle := True,
             carriage_moving_start_time := Some now\<rparr>)
      else if current_plc_detection a = Some ''aluminum'' \<and> vision_response = ''aluminum'' then
        send_event_to_app ''container_recognized''
          [(''container_type'', JStr ''aluminum''), (''confidence'', JFloat 1.0)]
          (a\<lparr>plc := cmd_radxa_detected_bank (plc a), carriage_moving_bank := True,
             carriage_moving_start_time := Some now\<rparr>)
      else
        send_event_to_app ''container_not_recognized''
          [(''plc_type'', (case current_plc_detection a of None \<Rightarrow> JNull | Some p \<Rightarrow> JStr p)),
           (''vision_type'', JStr vision_response)] a)"

text \<open>The WAITING_VISION branch of the loop body, in its three steps.\<close>

definition store_vision_response :: "Application \<Rightarrow> Application" where
  "store_vision_response a0 =
     (let (vision_response, h) = get_command ''vision'' (websocket_server a0);
          a1 = a0\<lparr>websocket_server := h\<rparr>
      in if vision_response \<noteq> [] \<and> pending_vision_response a1 = None
         then a1\<lparr>pending_vision_response := Some vision_response, veil_cleared_time := None\<rparr>
         else a1)"

definition update_plc_detection :: "Application \<Rightarrow> Application" where
  "update_plc_detection a =
     (if current_plc_detection a = None then
        (if get_bottle_exist (plc a) = 1 then a\<lparr>current_plc_detection := Some ''plastic''\<rparr>
         else if get_bank_exist (plc a) = 1 then a\<lparr>current_plc_detection := Some ''aluminum''\<rparr>
         else a)
      else a)"

definition decide_vision :: "real \<Rightarrow> Application \<Rightarrow> py_error + Application" where
  "decide_vision now a =
     (if pending_vision_response a \<noteq> None \<and> current_plc_detection a \<noteq> None then
        Inr ((handle_vision_response_with_events now
                (case pending_vision_response a of Some v \<Rightarrow> v | None \<Rightarrow> []) a)
             \<lparr>state := IDLE, vision_request_time := None, current_plc_detection := None,
              pending_vision_response := None\<rparr>)
      else
        (case vision_request_time a of
           None \<Rightarrow> Inl TypeError
         | Some t0 \<Rightarrow>
             if now - t0 > vision_timeout then
               Inr (send_event_to_app ''container_not_recognized'' []
                      (a\<lparr>veil_cleared_time := None, state := IDLE, vision_request_time := None,
                         current_plc_detection := None, pending_vision_response := None\<rparr>))
             else Inr a))"

definition waiting_vision :: "real \<Rightarrow> Application \<Rightarrow> py_error + Application" where
  "waiting_vision now a = decide_vision now (update_plc_detection (store_vision_response a))"

subsection \<open>App commands\<close>

text \<open>
  What \<open>json.loads\<close> does with a frame: it returns a value, or raises
  \<open>JSONDecodeError\<close>, or raises another exception (a \<open>RecursionError\<close> on a deeply nested
  text, a \<open>UnicodeDecodeError\<close> on a binary frame that is not UTF-8, a \<open>ValueError\<close> on
  an integer literal beyond the interpreter's digit limit).
\<close>

datatype decoded = Decoded jval | JSONDecodeError | Raised py_error

text \<open>
  \<open>parse_command\<close>. The decoder \<open>json.loads\<close> is a parameter. Only its
  \<open>JSONDecodeError\<close> is caught; any other exception of the decoder leaves
  \<open>parse_command\<close>, as does the \<open>AttributeError\<close> of a decoded value that is not an
  object and so has no \<open>get\<close>.
\<close>

definition parse_command ::
  "(string \<Rightarrow> decoded) \<Rightarrow> string \<Rightarrow> py_error + (jval \<times> (string \<times> jval) list)" where
  "parse_command loads msg =
     (if msg = [] then Inr (JNull, [])
      else case loads msg of
             JSONDecodeError \<Rightarrow> Inr (JNull, [])
           | Raised e \<Rightarrow> Inl e
           | Decoded (JDict data) \<Rightarrow>
               (let command = dict_get data ''command''
                in if map_of data ''container_type'' \<noteq> None
                   then Inr (command, dict_set data ''param'' (dict_get data ''container_type''))
                   else if map_of data ''config'' \<noteq> None
                   then Inr (command, dict_set data ''param'' (dict_get data ''config''))
                   else Inr (command, data))
           | Decoded _ \<Rightarrow> Inl AttributeError)"

definition handle_device_init :: "jval \<Rightarrow> Application \<Rightarrow> Application" where
  "handle_device_init config a =
     (if \<not> truthy config then a
      else send_event_to_app ''device_init_ack'' [(''status'', JStr ''ok'')]
             (a\<lparr>device_config := config\<rparr>))"

definition handle_get_device_info :: "Application \<Rightarrow> Application" where
  "handle_get_device_info a =
     send_event_to_app ''device_info''
       [(''bottle_count'', JInt (get_bottle_count (plc a))),
        (''bank_count'', JInt (get_bank_count (plc a))),
        (''bottle_fill_percent'', JInt (get_bottle_fill_percent (plc a))),
        (''bank_fill_percent'', JInt (get_bank_fill_percent (plc a))),
        (''state'', JStr (state_value (state a))),
        (''left_sensor'', JInt (get_state_left_sensor_carriage (plc a))),
        (''center_sensor'', JInt (get_state_center_sensor_carriage (plc a))),
        (''right_sensor'', JInt (get_state_right_sensor_carriage (plc a))),
        (''weight_error'', JInt (get_state_weight_error (plc a))),
        (''door_locked'', JBool (door_locked a))] a"

definition handle_get_photo :: "Application \<Rightarrow> Application" where
  "handle_get_photo a = a\<lparr>photo_workers := Suc (photo_workers a)\<rparr>"

definition handle_container_dump :: "real \<Rightarrow> jval \<Rightarrow> Application \<Rightarrow> Application" where
  "handle_container_dump now container_type a =
     (if container_type = JStr ''plastic'' then
        send_event_to_app ''container_dumped'' [(''container_type'', JStr ''plastic'')]
          (a\<lparr>state := DUMPING_PLASTIC, dump_started_time := Some now,
             plc := cmd_force_move_carriage_left (plc a)\<rparr>)
      else if container_type = JStr ''aluminum'' then
        send_event_to_app ''container_dumped'' [(''container_type'', JStr ''aluminum'')]
          (a\<lparr>state := DUMPING_ALUMINUM, dump_started_time := Some now,
             plc := cmd_force_move_carriage_right (plc a)\<rparr>)
      else a)"

definition handle_container_unloaded :: "jval \<Rightarrow> Application \<Rightarrow> Application" where
  "handle_container_unloaded container_type a =
     send_event_to_app ''container_unloaded_ack'' [(''container_type'', container_type)]
       (if container_type = JStr ''plastic'' then a\<lparr>plc := cmd_reset_bottle_counters (plc a)\<rparr>
        else if container_type = JStr ''aluminum'' then a\<lparr>plc := cmd_reset_bank_counters (plc a)\<rparr>
        else a)"

definition handle_lock_door :: "Application \<Rightarrow> Application" where
  "handle_lock_door a =
     send_event_to_app ''up_door_locked'' [(''status'', JStr ''ok'')] (a\<lparr>door_locked := True\<rparr>)"

definition handle_unlock_door :: "Application \<Rightarrow> Application" where
  "handle_unlock_door a =
     send_event_to_app ''up_door_unlocked'' [(''status'', JStr ''ok'')] (a\<lparr>door_locked := False\<rparr>)"

definition handle_stub_command :: "string \<Rightarrow> Application \<Rightarrow> Application" where
  "handle_stub_command command_name a =
     send_event_to_app (command_name @ ''_ack'') [(''status'', JStr ''not_implemented'')] a"

text \<open>The handlers of the command registry, and the registry itself.\<close>

datatype handler =
    H_get_photo | H_get_device_info | H_device_init | H_container_dump
  | H_container_unloaded | H_lock_door | H_unlock_door | H_stub_command
  | L_full_clear_register | L_force_move_carriage_left | L_force_move_carriage_right
  | L_weight_error_reset | L_reset_weight_reading

definition command_handlers :: "(string \<times> handler \<times> bool) list" where
  "command_handlers =
     [(''get_photo'', H_get_photo, False),
      (''get_device_info'', H_get_device_info, False),
      (''device_init'', H_device_init, True),
      (''dump_container'', H_container_dump, True),
      (''container_unloaded'', H_container_unloaded, True),
      (''lock_door'', H_lock_door, False),
      (''unlock_door'', H_unlock_door, False),
      (''enter_service_mode'', H_stub_command, False),
      (''exit_service_mode'', H_stub_command, False),
      (''restore_device'', H_stub_command, False),
      (''open_shutter'', H_stub_command, False),
      (''reboot_device'', H_stub_command, False),
      (''cmd_full_clear_register'', L_full_clear_register, False),
      (''cmd_force_move_carriage_left'', L_force_move_carriage_left, False),
      (''cmd_force_move_carriage_right'', L_force_move_carriage_right, False),
      (''cmd_weight_error_reset'', L_weight_error_reset, False),
      (''cmd_reset_weight_reading'', L_reset_weight_reading, False)]"

text \<open>
  Calling a handler with no argument, and with one. A call whose number of arguments
  does not fit the handler is Python's \<open>TypeError\<close>.
\<close>

fun call0 :: "handler \<Rightarrow> Application \<Rightarrow> py_error + Application" where
  "call0 H_get_photo a = Inr (handle_get_photo a)"
| "call0 H_get_device_info a = Inr (handle_get_device_info a)"
| "call0 H_lock_door a = Inr (handle_lock_door a)"
| "call0 H_unlock_door a = Inr (handle_unlock_door a)"
| "call0 L_full_clear_register a = Inr (a\<lparr>plc := cmd_full_clear_register (plc a)\<rparr>)"
| "call0 L_force_move_carriage_left a = Inr (a\<lparr>plc := cmd_force_move_carriage_left (plc a)\<rparr>)"
| "call0 L_force_move_carriage_right a = Inr (a\<lparr>plc := cmd_force_move_carriage_right (plc a)\<rparr>)"
| "call0 L_weight_error_reset a = Inr (a\<lparr>plc := cmd_weight_error_reset (plc a)\<rparr>)"
| "call0 L_reset_weight_reading a = Inr (a\<lparr>plc := cmd_reset_weight_reading (plc a)\<rparr>)"
| "call0 _ a = Inl TypeError"

fun call1 :: "handler \<Rightarrow> real \<Rightarrow> jval \<Rightarrow> Application \<Rightarrow> py_error + Application" where
  "call1 H_device_init now p a = Inr (handle_device_init p a)"
| "call1 H_container_dump now p a = Inr (handle_container_dump now p a)"
| "call1 H_container_unloaded now p a = Inr (handle_container_unloaded p a)"
| "call1 _ now p a = Inl TypeError"

text \<open>
  \<open>_dispatch_command\<close>. The membership test hashes the command: a list or an object is
  unhashable, a \<open>TypeError\<close>. Only a string can be a key of the registry.
\<close>

definition unknown_command :: "jval \<Rightarrow> Application \<Rightarrow> Application" where
  "unknown_command command a =
     send_event_to_app ''command_error''
       [(''command'', command), (''error'', JStr ''unknown_command'')] a"

definition dispatch_command ::
  "real \<Rightarrow> jval \<Rightarrow> (string \<times> jval) list \<Rightarrow> Application \<Rightarrow> py_error + (Application \<times> bool)" where
  "dispatch_command now command params a =
     (case command of
        JList _ \<Rightarrow> Inl TypeError
      | JDict _ \<Rightarrow> Inl TypeError
      | JStr c \<Rightarrow>
          (case map_of command_handlers c of
             None \<Rightarrow> Inr (unknown_command command a, False)
           | Some (h, requires_param) \<Rightarrow>
               (case (if h = H_stub_command then Inr (handle_stub_command c a)
                      else if requires_param then call1 h now (dict_get params ''param'') a
                      else call0 h a) of
                  Inl e \<Rightarrow> Inl e
                | Inr a' \<Rightarrow> Inr (a', True)))
      | _ \<Rightarrow> Inr (unknown_command command a, False))"

definition handle_error_state_commands ::
  "(string \<Rightarrow> decoded) \<Rightarrow> real \<Rightarrow> Application \<Rightarrow> py_error + Application" where
  "handle_error_state_commands loads now a0 =
     (let (app_message, h) = get_command ''app'' (websocket_server a0);
          a = a0\<lparr>websocket_server := h\<rparr>
      in case parse_command loads app_message of
           Inl e \<Rightarrow> Inl e
         | Inr (app_command, params) \<Rightarrow>
             if \<not> truthy app_command then Inr a
             else
               (let app_param = dict_get params ''param''
                in if app_command = JStr ''get_photo'' then Inr (handle_get_photo a)
                   else if app_command = JStr ''get_device_info'' then Inr (handle_get_device_info a)
                   else if app_command = JStr ''dump_container''
                   then Inr (handle_container_dump now app_param a)
                   else if app_command = JStr ''restore_device''
                   then Inr (send_event_to_app ''restore_device_ack'' [(''status'', JStr ''ok'')]
                               (a\<lparr>state := IDLE\<rparr>))
                   else Inr (send_event_to_app ''command_error''
                               [(''command'', app_command),
                                (''error'', JStr ''not_allowed_in_error_state'')] a)))"

subsection \<open>The IDLE branch\<close>

text \<open>Arming an inference run on a veil falling edge (the body of the edge test).\<close>

definition arm_inference :: "real \<Rightarrow> Application \<Rightarrow> Application" where
  "arm_inference now a0 =
     (let a1 = a0\<lparr>veil_just_cleared := True, veil_cleared_time := Some now,
                  inference_requested := True, vision_request_time := Some now\<rparr>;
          (detection, vision_cmd) =
             (if get_bottle_exist (plc a1) = 1 then (Some ''plastic'', ''bottle_exist'')
              else if get_bank_exist (plc a1) = 1 then (Some ''aluminum'', ''bank_exist'')
              else (None, ''bottle_exist''));
          a2 = send_event_to_app ''container_detected''
                 [(''container_type'',
                   JStr (case detection of None \<Rightarrow> ''unknown'' | Some d \<Rightarrow> d))]
                 (a1\<lparr>current_plc_detection := detection\<rparr>);
          h = send_to_client ''vision'' (Text vision_cmd)
                (snd (get_command ''vision'' (websocket_server a2)))
      in a2\<lparr>websocket_server := h, state := WAITING_VISION\<rparr>)"

definition process_app_message ::
  "(string \<Rightarrow> decoded) \<Rightarrow> real \<Rightarrow> Application \<Rightarrow> py_error + Application" where
  "process_app_message loads now a0 =
     (let (app_message, h) = get_command ''app'' (websocket_server a0);
          a = a0\<lparr>websocket_server := h\<rparr>
      in if app_message \<noteq> [] then
           (case parse_command loads app_message of
              Inl e \<Rightarrow> Inl e
            | Inr (app_command, params) \<Rightarrow>
                if truthy app_command then
                  (case dispatch_command now app_command params a of
                     Inl e \<Rightarrow> Inl e
                   | Inr (a', _) \<Rightarrow> Inr a')
                else Inr a)
         else Inr a)"

definition track_veil :: "real \<Rightarrow> Application \<Rightarrow> Application" where
  "track_veil now a0 =
     (let current_veil = get_state_veil (plc a0);
          bottle_exist = get_bottle_exist (plc a0);
          bank_exist = get_bank_exist (plc a0);
          container_detected = (bottle_exist = 1 \<or> bank_exist = 1);
          a1 = (if \<not> container_detected then a0\<lparr>inference_requested := False\<rparr> else a0);
          a2 = (if prev_veil_state a1 = 1 \<and> current_veil = 0 \<and> \<not> inference_requested a1
                then arm_inference now a1 else a1);
          a3 = (if current_veil = 1
                then a2\<lparr>veil_just_cleared := False, veil_cleared_time := None\<rparr> else a2)
      in a3\<lparr>prev_veil_state := current_veil\<rparr>)"

definition greet_app :: "Application \<Rightarrow> Application" where
  "greet_app a0 =
     (let (jc, h) = is_client_just_connected ''app'' (websocket_server a0);
          a = a0\<lparr>websocket_server := h\<rparr>
      in if jc then handle_get_device_info a else a)"

definition idle :: "(string \<Rightarrow> decoded) \<Rightarrow> real \<Rightarrow> Application \<Rightarrow> py_error + Application" where
  "idle loads now a = process_app_message loads now (track_veil now (greet_app a))"

subsection \<open>The main loop\<close>

text \<open>
  One pass of the body of \<open>while self.running\<close> in \<open>run\<close>, at the clock reading \<open>now\<close>.
  The poller and the hub's event loop run in threads of their own; here what they did
  since the last pass is applied before the pass (\<open>environment\<close>), and the registers and
  the clock keep still during it.
\<close>

definition tick :: "(string \<Rightarrow> decoded) \<Rightarrow> real \<Rightarrow> Application \<Rightarrow> py_error + Application" where
  "tick loads now a0 =
     (case (if state a0 = DUMPING_PLASTIC \<or> state a0 = DUMPING_ALUMINUM
            then handle_dumping_state now (state a0) a0 else Inr a0) of
        Inl e \<Rightarrow> Inl e
      | Inr a1 \<Rightarrow>
          (let a2 = check_carriage_timeouts now a1
           in case (if state a2 = WAITING_VISION then waiting_vision now a2
                    else if state a2 = ERROR then handle_error_state_commands loads now a2
                    else if state a2 = IDLE then idle loads now a2
                    else Inr a2) of
                Inl e \<Rightarrow> Inl e
              | Inr a3 \<Rightarrow> Inr (check_hardware_errors (check_receiver_state a3))))"

datatype hub_event = Registered string | Received string string | Closed string

fun hub_step :: "real \<Rightarrow> hub_event \<Rightarrow> WebSocket \<Rightarrow> WebSocket" where
  "hub_step now (Registered n) h = register_client now n h"
| "hub_step now (Received n m) h = on_message now n m h"
| "hub_step now (Closed n) h = disconnect n h"

record step_input =
  at_time :: real
  device :: device_regs
  hub_events :: "hub_event list"

definition environment :: "step_input \<Rightarrow> Application \<Rightarrow> Application" where
  "environment i a =
     a\<lparr>plc := update_data (device i) (plc a),
       websocket_server := fold (hub_step (at_time i)) (hub_events i) (websocket_server a)\<rparr>"

text \<open>
  \<open>run\<close>: the passes of the loop, one for each input, until an exception ends the loop.
\<close>

fun run :: "(string \<Rightarrow> decoded) \<Rightarrow> Application \<Rightarrow> step_input list \<Rightarrow> py_error + Application" where
  "run loads a [] = Inr a"
| "run loads a (i # rest) =
     (case tick loads (at_time i) (environment i a) of
        Inl e \<Rightarrow> Inl e
      | Inr a' \<Rightarrow> run loads a' rest)"

text \<open>The inference requests among the frames sent to the vision peer.\<close>

definition is_vision_request :: "string \<times> payload \<Rightarrow> bool" where
  "is_vision_request f =
     (f = (''vision'', Text ''bottle_exist'') \<or> f = (''vision'', Text ''bank_exist''))"

definition vision_requests :: "Application \<Rightarrow> nat" where
  "vision_requests a = length (filter is_vision_request (outbox (websocket_server a)))"

definition receiver_occupied :: "int \<Rightarrow> bool" where
  "receiver_occupied status = (get_bit_cell status 7 = 1 \<or> get_bit_cell status 6 = 1)"

section \<open>Notions used in the statements\<close>

text \<open>The coordinator after it has read, and so emptied, a peer's command slot.\<close>

definition consume :: "string \<Rightarrow> Application \<Rightarrow> Application" where
  "consume peer a = a\<lparr>websocket_server := snd (get_command peer (websocket_server a))\<rparr>"

text \<open>
  What the suppression of repeated inference requests depends on: the guard, the number
  of requests sent so far and the status word. \<open>budget\<close> counts the requests sent plus the
  one that a lowered guard still allows.
\<close>

definition guard_view :: "Application \<Rightarrow> bool \<times> nat \<times> int" where
  "guard_view a = (inference_requested a, vision_requests a, modbus_register_status (plc a))"

definition budget :: "Application \<Rightarrow> nat" where
  "budget a = vision_requests a + (if inference_requested a then 0 else 1)"

definition guarded :: "Application \<Rightarrow> Application \<Rightarrow> bool" where
  "guarded a a' \<longleftrightarrow>
     modbus_register_status (plc a') = modbus_register_status (plc a) \<and>
     (inference_requested a \<longrightarrow>
        inference_requested a' \<and> vision_requests a' = vision_requests a) \<and>
     budget a' \<le> budget a"

section \<open>Sample inputs\<close>

text \<open>
  A decoder for a few frames an app peer can send: what \<open>json.loads\<close> returns on these
  texts, its \<open>UnicodeDecodeError\<close> on the one-byte binary frame \<open>0xFF\<close>, and its
  \<open>JSONDecodeError\<close> on everything else.
\<close>

definition sample_loads :: "string \<Rightarrow> decoded" where
  \<open>sample_loads s =
     (if s = ''{"command": "restore_device"}''
      then Decoded (JDict [(''command'', JStr ''restore_device'')])
      else if s = ''{"command": "open_shutter"}''
      then Decoded (JDict [(''command'', JStr ''open_shutter'')])
      else if s = ''{"command": "fly"}''
      then Decoded (JDict [(''command'', JStr ''fly'')])
      else if s = ''{"command": "dump_container", "container_type": "plastic"}''
      then Decoded (JDict [(''command'', JStr ''dump_container''),
                           (''container_type'', JStr ''plastic'')])
      else if s = ''{"command": "dump_container", "container_type": "glass"}''
      then Decoded (JDict [(''command'', JStr ''dump_container''),
                           (''container_type'', JStr ''glass'')])
      else if s = [CHR 0xFF]
      then Raised UnicodeDecodeError
      else JSONDecodeError)\<close>

text \<open>A peer that registered and then sent one frame; a driver whose status word was polled.\<close>

definition with_message :: "string \<Rightarrow> string \<Rightarrow> Application \<Rightarrow> Application" where
  "with_message peer msg a =
     a\<lparr>websocket_server := on_message 0 peer msg (register_client 0 peer (websocket_server a))\<rparr>"

definition with_status :: "int \<Rightarrow> Application \<Rightarrow> Application" where
  "with_status w a = a\<lparr>plc := (plc a)\<lparr>modbus_register_status := w\<rparr>\<rparr>"

text \<open>
  Two runs from the initial state. In both a bottle is in the receiver, the veil is
  crossed at time 1 and free at time 2, and the vision peer answers \<open>plastic\<close> at time 3.
  In \<open>occupancy_trace\<close> the veil is then crossed and freed once more with the bottle still
  there; in \<open>dump_trace\<close> the app peer orders the dump at time 3.5 and the left carriage
  sensor is reached at time 4.
\<close>

definition poll :: "int \<Rightarrow> device_regs" where
  "poll w = \<lparr>dev_status = w, dev_bank_counter = 0, dev_bottle_counter = 0,
             dev_bottle_percent = 0, dev_bank_percent = 0\<rparr>"

definition occupancy_trace :: "step_input list" where
  "occupancy_trace =
     [\<lparr>at_time = 1, device = poll 129,
       hub_events = [Registered ''app'', Registered ''vision'']\<rparr>,
      \<lparr>at_time = 2, device = poll 128, hub_events = []\<rparr>,
      \<lparr>at_time = 3, device = poll 128, hub_events = [Received ''vision'' ''plastic'']\<rparr>,
      \<lparr>at_time = 4, device = poll 129, hub_events = []\<rparr>,
      \<lparr>at_time = 5, device = poll 128, hub_events = []\<rparr>]"

definition dump_trace :: "step_input list" where
  \<open>dump_trace =
     [\<lparr>at_time = 1, device = poll 129,
       hub_events = [Registered ''app'', Registered ''vision'']\<rparr>,
      \<lparr>at_time = 2, device = poll 128, hub_events = []\<rparr>,
      \<lparr>at_time = 3, device = poll 128, hub_events = [Received ''vision'' ''plastic'']\<rparr>,
      \<lparr>at_time = 3.5, device = poll 128, hub_events =
         [Received ''app'' ''{"command": "dump_container", "container_type": "plastic"}'']\<rparr>,
      \<lparr>at_time = 4, device = poll 130, hub_events = []\<rparr>]\<close>

section \<open>The one-shot command slot\<close>

lemma get_command_absent:
  "client_messages h name = None \<Longrightarrow> get_command name h = ([], h)"
  by (simp add: get_command_def)

lemma get_command_present:
  "client_messages h name = Some s \<Longrightarrow>
     fst (get_command name h) = message s \<and>
     client_messages (snd (get_command name h)) name = Some (s\<lparr>message := []\<rparr>)"
  by (simp add: get_command_def)

text \<open>
  C7. \<open>get_command name\<close> returns the peer's current \<open>last_message\<close> and clears it in the
  same call: a second call with no message in between returns the empty string. For an
  absent peer, and for a slot that was already consumed, the result is the empty string.
\<close>

theorem get_command_one_shot:
  "(\<forall>s. client_messages h name = Some s \<longrightarrow>
        fst (get_command name h) = message s \<and>
        get_state name (snd (get_command name h)) = []) \<and>
   fst (get_command name (snd (get_command name h))) = [] \<and>
   (client_messages h name = None \<longrightarrow> fst (get_command name h) = [])"
  by (auto simp: get_command_def get_state_def split: option.splits)

theorem get_command_one_shot_witness:
  "fst (get_command ''app'' (on_message 5 ''app'' ''ping''
         (register_client 1 ''app'' \<lparr>clients = {}, client_messages = Map.empty, outbox = []\<rparr>)))
     = ''ping'' \<and>
   fst (get_command ''app'' (snd (get_command ''app'' (on_message 5 ''app'' ''ping''
         (register_client 1 ''app'' \<lparr>clients = {}, client_messages = Map.empty, outbox = []\<rparr>)))))
     = [] \<and>
   fst (get_command ''vision'' (on_message 5 ''app'' ''ping''
         (register_client 1 ''app'' \<lparr>clients = {}, client_messages = Map.empty, outbox = []\<rparr>)))
     = []"
  using get_command_one_shot
    [of "on_message 5 ''app'' ''ping''
           (register_client 1 ''app'' \<lparr>clients = {}, client_messages = Map.empty, outbox = []\<rparr>)" "''app''"]
    get_command_one_shot
    [of "on_message 5 ''app'' ''ping''
           (register_client 1 ''app'' \<lparr>clients = {}, client_messages = Map.empty, outbox = []\<rparr>)" "''vision''"]
  by (simp add: on_message_def register_client_def)

section \<open>Basic facts\<close>

lemma get_bit_cell_bit: "get_bit_cell v n = of_bool (bit v n)"
  unfolding get_bit_cell_def and_one_eq mod_2_eq_odd bit_iff_odd_drop_bit ..

lemma get_bit_set_True: "get_bit_cell (set_bit_cell v n True) n = 1"
  by (simp add: get_bit_cell_bit set_bit_cell_def bit_or_iff bit_push_bit_iff bit_exp_iff)

lemma get_bit_set_False: "get_bit_cell (set_bit_cell v n False) n = 0"
  by (simp add: get_bit_cell_bit set_bit_cell_def bit_and_iff bit_not_iff bit_push_bit_iff
      bit_exp_iff)

lemma get_bit_set_other:
  "m \<noteq> n \<Longrightarrow> get_bit_cell (set_bit_cell v n b) m = get_bit_cell v m"
  by (auto simp add: get_bit_cell_bit set_bit_cell_def bit_and_iff bit_or_iff bit_not_iff
      bit_push_bit_iff bit_exp_iff)

lemma outbox_get_command [simp]: "outbox (snd (get_command n h)) = outbox h"
  by (simp add: get_command_def split: option.splits)

lemma outbox_send_to_client [simp]:
  "outbox (send_to_client n m h) = outbox h @ [(n, m)]"
  by (simp add: send_to_client_def)

lemma store_vision_response_keeps:
  "plc (store_vision_response a) = plc a"
  "outbox (websocket_server (store_vision_response a)) = outbox (websocket_server a)"
  "current_plc_detection (store_vision_response a) = current_plc_detection a"
  by (simp_all add: store_vision_response_def Let_def split_def)

lemma update_plc_detection_keeps:
  "plc (update_plc_detection a) = plc a"
  "websocket_server (update_plc_detection a) = websocket_server a"
  "pending_vision_response (update_plc_detection a) = pending_vision_response a"
  by (simp_all add: update_plc_detection_def)

lemmas sample_defs =
  with_message_def with_status_def new_Application_def new_PLC_def new_WebSocket_def
  on_message_def register_client_def

lemmas status_getter_defs =
  get_state_veil_def get_bottle_exist_def get_bank_exist_def
  get_state_left_sensor_carriage_def get_state_right_sensor_carriage_def
  get_state_center_sensor_carriage_def get_state_weight_error_def get_weight_too_small_def
  get_left_movement_error_def get_right_movement_error_def

section \<open>Vision-response fusion\<close>

text \<open>
  C1. In WAITING_VISION, once the vision response and the PLC detection are both
  resolved (after this pass has drained the vision slot and looked at the status bits):
  plastic and plastic sets command bit 7 and emits \<open>container_recognized\<close> with
  container type plastic; aluminum and aluminum sets command bit 6 and emits
  \<open>container_recognized\<close> with container type aluminum; the response \<open>none\<close> emits
  \<open>container_not_recognized\<close> with empty data and leaves the driver as it was; a mismatch
  emits \<open>container_not_recognized\<close> with \<open>plc_type\<close> and \<open>vision_type\<close> and leaves the
  driver as it was. In every case the state becomes IDLE and the pending response, the
  PLC detection and the request time are cleared.
\<close>

theorem vision_fusion:
  assumes v: "pending_vision_response (update_plc_detection (store_vision_response a)) = Some v"
      and p: "current_plc_detection (update_plc_detection (store_vision_response a)) = Some p"
  shows "\<exists>a'. waiting_vision now a = Inr a' \<and>
           state a' = IDLE \<and> pending_vision_response a' = None \<and>
           current_plc_detection a' = None \<and> vision_request_time a' = None \<and>
           (p = ''plastic'' \<and> v = ''plastic'' \<longrightarrow>
              modbus_register_cmd (plc a') = set_bit_cell (modbus_register_cmd (plc a)) 7 True \<and>
              get_bit_cell (modbus_register_cmd (plc a')) 7 = 1 \<and>
              outbox (websocket_server a') = outbox (websocket_server a) @
                [(''app'', Event ''container_recognized''
                   [(''container_type'', JStr ''plastic''), (''confidence'', JFloat 1)])]) \<and>
           (p = ''aluminum'' \<and> v = ''aluminum'' \<longrightarrow>
              modbus_register_cmd (plc a') = set_bit_cell (modbus_register_cmd (plc a)) 6 True \<and>
              get_bit_cell (modbus_register_cmd (plc a')) 6 = 1 \<and>
              outbox (websocket_server a') = outbox (websocket_server a) @
                [(''app'', Event ''container_recognized''
                   [(''container_type'', JStr ''aluminum''), (''confidence'', JFloat 1)])]) \<and>
           (v = ''none'' \<longrightarrow>
              plc a' = plc a \<and>
              outbox (websocket_server a') = outbox (websocket_server a) @
                [(''app'', Event ''container_not_recognized'' [])]) \<and>
           (v \<noteq> ''none'' \<and> p \<noteq> v \<longrightarrow>
              plc a' = plc a \<and>
              outbox (websocket_server a') = outbox (websocket_server a) @
                [(''app'', Event ''container_not_recognized''
                   [(''plc_type'', JStr p), (''vision_type'', JStr v)])])"
  using v p
  by (auto simp add: waiting_vision_def decide_vision_def handle_vision_response_with_events_def
      send_event_to_app_def store_vision_response_keeps update_plc_detection_keeps
      cmd_radxa_detected_bottle_def cmd_radxa_detected_bank_def cmd_set_def get_bit_set_True)

theorem vision_fusion_witness:
  "pending_vision_response (update_plc_detection (store_vision_response
      (with_message ''vision'' ''plastic'' (with_status 128
         (new_Application\<lparr>state := WAITING_VISION, vision_request_time := Some 10\<rparr>)))))
     = Some ''plastic'' \<and>
   current_plc_detection (update_plc_detection (store_vision_response
      (with_message ''vision'' ''plastic'' (with_status 128
         (new_Application\<lparr>state := WAITING_VISION, vision_request_time := Some 10\<rparr>)))))
     = Some ''plastic'' \<and>
   (\<exists>a'. waiting_vision 11
           (with_message ''vision'' ''plastic'' (with_status 128
              (new_Application\<lparr>state := WAITING_VISION, vision_request_time := Some 10\<rparr>)))
         = Inr a' \<and>
         state a' = IDLE \<and> pending_vision_response a' = None \<and>
         current_plc_detection a' = None \<and> vision_request_time a' = None \<and>
         modbus_register_cmd (plc a') = 128 \<and>
         outbox (websocket_server a') =
           [(''app'', Event ''container_recognized''
              [(''container_type'', JStr ''plastic''), (''confidence'', JFloat 1)])])"
proof -
  let ?a = "with_message ''vision'' ''plastic'' (with_status 128
              (new_Application\<lparr>state := WAITING_VISION, vision_request_time := Some 10\<rparr>))"
  have v: "pending_vision_response (update_plc_detection (store_vision_response ?a))
             = Some ''plastic''"
    by (simp add: update_plc_detection_keeps store_vision_response_def get_command_def
        sample_defs Let_def)
  have p: "current_plc_detection (update_plc_detection (store_vision_response ?a))
             = Some ''plastic''"
    by (simp add: update_plc_detection_def store_vision_response_keeps status_getter_defs
        get_bit_cell_def sample_defs)
  have c: "modbus_register_cmd (plc ?a) = 0" "outbox (websocket_server ?a) = []"
    by (simp_all add: sample_defs)
  from vision_fusion [OF v p, of 11] obtain a' where
    "waiting_vision 11 ?a = Inr a'" "state a' = IDLE" "pending_vision_response a' = None"
    "current_plc_detection a' = None" "vision_request_time a' = None"
    "modbus_register_cmd (plc a') = set_bit_cell (modbus_register_cmd (plc ?a)) 7 True"
    "outbox (websocket_server a') = outbox (websocket_server ?a) @
       [(''app'', Event ''container_recognized''
          [(''container_type'', JStr ''plastic''), (''confidence'', JFloat 1)])]"
    by auto
  then show ?thesis using v p c by (simp add: set_bit_cell_def)
qed

section \<open>Dumping completion\<close>

text \<open>
  C2. In DUMPING_PLASTIC (and in DUMPING_ALUMINUM) a pass that reads the left (the right)
  carriage sensor as 1 clears the whole command word, goes to IDLE, clears
  \<open>dump_started_time\<close> and emits \<open>container_accepted\<close> with the container type and the
  value of the bottle (the bank) counter register. Otherwise, when more than
  \<open>dump_timeout\<close>, 3.0 s, have passed since \<open>dump_started_time\<close>, it clears the whole command
  word, goes to ERROR and emits \<open>hardware_error\<close> with the error code
  \<open>carriage_left_timeout\<close> (\<open>carriage_right_timeout\<close>).
\<close>

theorem dumping_completion:
  "(get_state_left_sensor_carriage (plc a) = 1 \<longrightarrow>
      (\<exists>a'. handle_dumping_state now DUMPING_PLASTIC a = Inr a' \<and>
            modbus_register_cmd (plc a') = 0 \<and> state a' = IDLE \<and> dump_started_time a' = None \<and>
            outbox (websocket_server a') = outbox (websocket_server a) @
              [(''app'', Event ''container_accepted''
                 [(''container_type'', JStr ''plastic''),
                  (''counter'', JInt (modbus_register_bottle_counter (plc a)))])])) \<and>
   (get_state_right_sensor_carriage (plc a) = 1 \<longrightarrow>
      (\<exists>a'. handle_dumping_state now DUMPING_ALUMINUM a = Inr a' \<and>
            modbus_register_cmd (plc a') = 0 \<and> state a' = IDLE \<and> dump_started_time a' = None \<and>
            outbox (websocket_server a') = outbox (websocket_server a) @
              [(''app'', Event ''container_accepted''
                 [(''container_type'', JStr ''aluminum''),
                  (''counter'', JInt (modbus_register_bank_counter (plc a)))])])) \<and>
   (get_state_left_sensor_carriage (plc a) \<noteq> 1 \<and> dump_started_time a = Some t0 \<and>
    now - t0 > dump_timeout \<longrightarrow>
      (\<exists>a'. handle_dumping_state now DUMPING_PLASTIC a = Inr a' \<and>
            modbus_register_cmd (plc a') = 0 \<and> state a' = ERROR \<and>
            outbox (websocket_server a') = outbox (websocket_server a) @
              [(''app'', Event ''hardware_error''
                 [(''error_code'', JStr ''carriage_left_timeout''),
                  (''message'', JStr msg_carriage_left_timeout)])])) \<and>
   (get_state_right_sensor_carriage (plc a) \<noteq> 1 \<and> dump_started_time a = Some t0 \<and>
    now - t0 > dump_timeout \<longrightarrow>
      (\<exists>a'. handle_dumping_state now DUMPING_ALUMINUM a = Inr a' \<and>
            modbus_register_cmd (plc a') = 0 \<and> state a' = ERROR \<and>
            outbox (websocket_server a') = outbox (websocket_server a) @
              [(''app'', Event ''hardware_error''
                 [(''error_code'', JStr ''carriage_right_timeout''),
                  (''message'', JStr msg_carriage_right_timeout)])]))"
  by (simp add: handle_dumping_state_def send_event_to_app_def cmd_full_clear_register_def
      reset_all_bits_def get_bottle_count_def get_bank_count_def Let_def)

theorem dumping_completion_witness:
  "get_state_left_sensor_carriage
     (plc (with_status 2 (new_Application\<lparr>state := DUMPING_PLASTIC,
                                          dump_started_time := Some 10\<rparr>))) = 1 \<and>
   (\<exists>a'. handle_dumping_state 11 DUMPING_PLASTIC
           (with_status 2 (new_Application\<lparr>state := DUMPING_PLASTIC,
                                            dump_started_time := Some 10\<rparr>)) = Inr a' \<and>
         modbus_register_cmd (plc a') = 0 \<and> state a' = IDLE \<and> dump_started_time a' = None \<and>
         outbox (websocket_server a') =
           [(''app'', Event ''container_accepted''
              [(''container_type'', JStr ''plastic''), (''counter'', JInt 0)])]) \<and>
   get_state_right_sensor_carriage
     (plc (with_status 0 (new_Application\<lparr>state := DUMPING_ALUMINUM,
                                          dump_started_time := Some 10\<rparr>))) \<noteq> 1 \<and>
   14 - 10 > dump_timeout \<and>
   (\<exists>a'. handle_dumping_state 14 DUMPING_ALUMINUM
           (with_status 0 (new_Application\<lparr>state := DUMPING_ALUMINUM,
                                            dump_started_time := Some 10\<rparr>)) = Inr a' \<and>
         modbus_register_cmd (plc a') = 0 \<and> state a' = ERROR \<and>
         outbox (websocket_server a') =
           [(''app'', Event ''hardware_error''
              [(''error_code'', JStr ''carriage_right_timeout''),
               (''message'', JStr msg_carriage_right_timeout)])])"
  using dumping_completion
          [of "with_status 2 (new_Application\<lparr>state := DUMPING_PLASTIC,
                                               dump_started_time := Some 10\<rparr>)" 11 10]
        dumping_completion
          [of "with_status 0 (new_Application\<lparr>state := DUMPING_ALUMINUM,
                                               dump_started_time := Some 10\<rparr>)" 14 10]
  by (simp add: sample_defs status_getter_defs get_bit_cell_def dump_timeout_def)

section \<open>The token sent to the vision peer\<close>

text \<open>
  C3, as the code has it. A veil falling edge seen in IDLE with the guard
  \<open>inference_requested\<close> down (or with an empty receiver, which lowers the guard first)
  arms an inference run: it emits \<open>container_detected\<close> and sends the vision peer
  \<open>bottle_exist\<close> when the bottle bit is set or neither bit is set, and \<open>bank_exist\<close> when
  only the bank bit is set; the state becomes WAITING_VISION.
\<close>

theorem arming_token:
  assumes "prev_veil_state a = 1" and "get_state_veil (plc a) = 0"
    and "\<not> inference_requested a \<or>
         (get_bottle_exist (plc a) \<noteq> 1 \<and> get_bank_exist (plc a) \<noteq> 1)"
  shows "outbox (websocket_server (track_veil now a)) =
           outbox (websocket_server a) @
           [(''app'', Event ''container_detected''
               [(''container_type'',
                 JStr (if get_bottle_exist (plc a) = 1 then ''plastic''
                       else if get_bank_exist (plc a) = 1 then ''aluminum'' else ''unknown''))]),
            (''vision'',
             Text (if get_bottle_exist (plc a) = 1 then ''bottle_exist''
                   else if get_bank_exist (plc a) = 1 then ''bank_exist'' else ''bottle_exist''))] \<and>
         state (track_veil now a) = WAITING_VISION"
  using assms
  by (auto simp add: track_veil_def arm_inference_def send_event_to_app_def Let_def)

theorem arming_token_witness:
  "prev_veil_state (with_status 128 (new_Application\<lparr>prev_veil_state := 1\<rparr>)) = 1 \<and>
   get_state_veil (plc (with_status 128 (new_Application\<lparr>prev_veil_state := 1\<rparr>))) = 0 \<and>
   \<not> inference_requested (with_status 128 (new_Application\<lparr>prev_veil_state := 1\<rparr>)) \<and>
   outbox (websocket_server
     (track_veil 10 (with_status 128 (new_Application\<lparr>prev_veil_state := 1\<rparr>)))) =
     [(''app'', Event ''container_detected'' [(''container_type'', JStr ''plastic'')]),
      (''vision'', Text ''bottle_exist'')] \<and>
   state (track_veil 10 (with_status 128 (new_Application\<lparr>prev_veil_state := 1\<rparr>)))
     = WAITING_VISION"
  using arming_token [of "with_status 128 (new_Application\<lparr>prev_veil_state := 1\<rparr>)" 10]
  by (simp add: sample_defs status_getter_defs get_bit_cell_def)

text \<open>
  With only the bank bit set (status word 64) the frame sent to the vision peer on arming
  is \<open>bank_exist\<close>, not \<open>bottle_exist\<close>.
\<close>

theorem arming_token_aluminum:
  "outbox (websocket_server
     (track_veil 10 (with_status 64 (new_Application\<lparr>prev_veil_state := 1\<rparr>)))) =
     [(''app'', Event ''container_detected'' [(''container_type'', JStr ''aluminum'')]),
      (''vision'', Text ''bank_exist'')]"
  by (simp add: track_veil_def arm_inference_def sample_defs status_getter_defs get_bit_cell_def
      send_event_to_app_def Let_def)

section \<open>The just-connected flag\<close>

lemma just_connected_first_read:
  "name \<noteq> [] \<Longrightarrow>
   fst (is_client_just_connected name (register_client t1 name h)) = True \<and>
   fst (is_client_just_connected name
          (snd (is_client_just_connected name (register_client t1 name h)))) = False"
  by (simp add: is_client_just_connected_def register_client_def)

text \<open>
  C9, at the input where the code departs from it. A peer registers and sends one frame
  before the flag is read: \<open>_handler\<close> replaces the peer's whole entry by a dict without
  the key \<open>just_connected\<close>, and the first read of the flag returns false.
\<close>

theorem just_connected_lost_on_message:
  "fst (is_client_just_connected name
          (on_message t2 name msg (register_client t1 name h))) = False"
  by (simp add: is_client_just_connected_def on_message_def)

section \<open>A dump command with another container type\<close>

text \<open>
  C10. \<open>handle_container_dump\<close> with a container type that is neither \<open>plastic\<close> nor
  \<open>aluminum\<close> (a missing parameter is \<open>None\<close>) returns the coordinator as it was: the
  state, \<open>dump_started_time\<close>, the command register and the frames sent are all unchanged,
  so no event goes to the app peer, through the dispatcher as well.
\<close>

theorem handle_container_dump_other_type:
  assumes "container_type \<noteq> JStr ''plastic''" and "container_type \<noteq> JStr ''aluminum''"
  shows "handle_container_dump now container_type a = a \<and>
         (dict_get params ''param'' = container_type \<longrightarrow>
          dispatch_command now (JStr ''dump_container'') params a = Inr (a, True))"
  using assms by (simp add: handle_container_dump_def dispatch_command_def command_handlers_def)

theorem handle_container_dump_other_type_witness:
  "JNull \<noteq> JStr ''plastic'' \<and> JNull \<noteq> JStr ''aluminum'' \<and>
   handle_container_dump 10 JNull new_Application = new_Application \<and>
   dispatch_command 10 (JStr ''dump_container'') [(''command'', JStr ''dump_container'')]
     new_Application = Inr (new_Application, True)"
  using handle_container_dump_other_type
          [of JNull 10 new_Application "[(''command'', JStr ''dump_container'')]"]
  by (simp add: dict_get_def)

section \<open>Commands in the ERROR state\<close>

lemma get_command_slot:
  "client_messages h n = Some s \<Longrightarrow> fst (get_command n h) = message s"
  by (simp add: get_command_def)

text \<open>
  C4. In ERROR, a frame of the app peer that names a command (the value under \<open>command\<close>
  is true in Python's sense; a frame with no command name is dropped without an answer)
  is honored exactly when the command is \<open>get_photo\<close>, \<open>get_device_info\<close>,
  \<open>dump_container\<close> or \<open>restore_device\<close>: the handler of the first three is called, and
  \<open>restore_device\<close> sets the state to IDLE and emits \<open>restore_device_ack\<close>. Every other
  command, in the registry or not, emits \<open>command_error\<close> with the command and the error
  \<open>not_allowed_in_error_state\<close>; the state stays ERROR and the driver is untouched.
\<close>

theorem error_state_commands:
  assumes st: "state a = ERROR"
    and slot: "client_messages (websocket_server a) ''app'' = Some s"
    and parsed: "parse_command loads (message s) = Inr (c, params)"
    and c: "truthy c"
  shows "(c = JStr ''get_photo'' \<longrightarrow>
            handle_error_state_commands loads now a = Inr (handle_get_photo (consume ''app'' a))) \<and>
         (c = JStr ''get_device_info'' \<longrightarrow>
            handle_error_state_commands loads now a
              = Inr (handle_get_device_info (consume ''app'' a))) \<and>
         (c = JStr ''dump_container'' \<longrightarrow>
            handle_error_state_commands loads now a
              = Inr (handle_container_dump now (dict_get params ''param'') (consume ''app'' a))) \<and>
         (c = JStr ''restore_device'' \<longrightarrow>
            (\<exists>a'. handle_error_state_commands loads now a = Inr a' \<and> state a' = IDLE \<and>
                  outbox (websocket_server a') = outbox (websocket_server a) @
                    [(''app'', Event ''restore_device_ack'' [(''status'', JStr ''ok'')])])) \<and>
         (c \<noteq> JStr ''get_photo'' \<and> c \<noteq> JStr ''get_device_info'' \<and>
          c \<noteq> JStr ''dump_container'' \<and> c \<noteq> JStr ''restore_device'' \<longrightarrow>
            (\<exists>a'. handle_error_state_commands loads now a = Inr a' \<and> state a' = ERROR \<and>
                  plc a' = plc a \<and>
                  outbox (websocket_server a') = outbox (websocket_server a) @
                    [(''app'', Event ''command_error''
                       [(''command'', c), (''error'', JStr ''not_allowed_in_error_state'')])]))"
  using st parsed c get_command_slot [OF slot]
  by (simp add: handle_error_state_commands_def consume_def split_def Let_def
      send_event_to_app_def)

theorem error_state_commands_witness:
  \<open>state (with_message ''app'' ''{"command": "open_shutter"}''
            (new_Application\<lparr>state := ERROR\<rparr>)) = ERROR \<and>
   parse_command sample_loads ''{"command": "open_shutter"}''
     = Inr (JStr ''open_shutter'', [(''command'', JStr ''open_shutter'')]) \<and>
   truthy (JStr ''open_shutter'') \<and>
   (\<exists>a'. handle_error_state_commands sample_loads 10
           (with_message ''app'' ''{"command": "open_shutter"}''
              (new_Application\<lparr>state := ERROR\<rparr>)) = Inr a' \<and>
         state a' = ERROR \<and>
         outbox (websocket_server a') =
           [(''app'', Event ''command_error''
              [(''command'', JStr ''open_shutter''),
               (''error'', JStr ''not_allowed_in_error_state'')])]) \<and>
   parse_command sample_loads ''{"command": "restore_device"}''
     = Inr (JStr ''restore_device'', [(''command'', JStr ''restore_device'')]) \<and>
   (\<exists>a'. handle_error_state_commands sample_loads 10
           (with_message ''app'' ''{"command": "restore_device"}''
              (new_Application\<lparr>state := ERROR\<rparr>)) = Inr a' \<and>
         state a' = IDLE \<and>
         outbox (websocket_server a') =
           [(''app'', Event ''restore_device_ack'' [(''status'', JStr ''ok'')])])\<close>
proof -
  let ?a1 = \<open>with_message ''app'' ''{"command": "open_shutter"}''
               (new_Application\<lparr>state := ERROR\<rparr>)\<close>
  let ?a2 = \<open>with_message ''app'' ''{"command": "restore_device"}''
               (new_Application\<lparr>state := ERROR\<rparr>)\<close>
  have p1: \<open>parse_command sample_loads ''{"command": "open_shutter"}''
              = Inr (JStr ''open_shutter'', [(''command'', JStr ''open_shutter'')])\<close>
    by (simp add: parse_command_def sample_loads_def dict_get_def)
  have p2: \<open>parse_command sample_loads ''{"command": "restore_device"}''
              = Inr (JStr ''restore_device'', [(''command'', JStr ''restore_device'')])\<close>
    by (simp add: parse_command_def sample_loads_def dict_get_def)
  have s1: \<open>client_messages (websocket_server ?a1) ''app''
              = Some \<lparr>message = ''{"command": "open_shutter"}'', timestamp = 0,
                      just_connected = None\<rparr>\<close>
    by (simp add: sample_defs)
  have s2: \<open>client_messages (websocket_server ?a2) ''app''
              = Some \<lparr>message = ''{"command": "restore_device"}'', timestamp = 0,
                      just_connected = None\<rparr>\<close>
    by (simp add: sample_defs)
  have e1: "state ?a1 = ERROR" "outbox (websocket_server ?a1) = []"
    and e2: "state ?a2 = ERROR" "outbox (websocket_server ?a2) = []"
    by (simp_all add: sample_defs)
  have t: "truthy (JStr ''open_shutter'')" "truthy (JStr ''restore_device'')"
    by simp_all
  from error_state_commands [OF e1(1) s1, of sample_loads, simplified, OF p1 t(1), of 10] e1(2)
  obtain a1 where r1: "handle_error_state_commands sample_loads 10 ?a1 = Inr a1"
      "state a1 = ERROR"
      "outbox (websocket_server a1) =
         [(''app'', Event ''command_error''
            [(''command'', JStr ''open_shutter''),
             (''error'', JStr ''not_allowed_in_error_state'')])]"
    by auto
  from error_state_commands [OF e2(1) s2, of sample_loads, simplified, OF p2 t(2), of 10] e2(2)
  obtain a2 where r2: "handle_error_state_commands sample_loads 10 ?a2 = Inr a2"
      "state a2 = IDLE"
      "outbox (websocket_server a2) =
         [(''app'', Event ''restore_device_ack'' [(''status'', JStr ''ok'')])]"
    by auto
  show ?thesis using r1 r2 p1 p2 e1(1) by simp
qed

section \<open>Frames of the app peer that are not commands\<close>

text \<open>
  C8, as the code has it. A non-empty frame of the app peer on which \<open>json.loads\<close>
  raises \<open>JSONDecodeError\<close> is consumed and nothing else happens, in IDLE and in ERROR:
  no event is emitted and the coordinator is otherwise unchanged. A JSON object read in IDLE whose command name is
  a non-empty string outside the registry is consumed and answered by \<open>command_error\<close>
  with the command name and the error \<open>unknown_command\<close>; the coordinator is otherwise
  unchanged.
\<close>

theorem protocol_misuse:
  assumes slot: "client_messages (websocket_server a) ''app'' = Some s"
    and msg: "message s \<noteq> []"
  shows "(loads (message s) = JSONDecodeError \<longrightarrow>
            process_app_message loads now a = Inr (consume ''app'' a) \<and>
            handle_error_state_commands loads now a = Inr (consume ''app'' a)) \<and>
         (parse_command loads (message s) = Inr (JStr name, params) \<and> name \<noteq> [] \<and>
          name \<notin> fst ` set command_handlers \<longrightarrow>
            process_app_message loads now a =
              Inr (send_event_to_app ''command_error''
                     [(''command'', JStr name), (''error'', JStr ''unknown_command'')]
                     (consume ''app'' a)))"
proof (intro conjI impI)
  assume "loads (message s) = JSONDecodeError"
  then have "parse_command loads (message s) = Inr (JNull, [])"
    by (simp add: parse_command_def)
  then show "process_app_message loads now a = Inr (consume ''app'' a)"
    and "handle_error_state_commands loads now a = Inr (consume ''app'' a)"
    using msg get_command_slot [OF slot]
    by (simp_all add: process_app_message_def handle_error_state_commands_def consume_def
        split_def Let_def)
next
  assume h: "parse_command loads (message s) = Inr (JStr name, params) \<and> name \<noteq> [] \<and>
             name \<notin> fst ` set command_handlers"
  then have "map_of command_handlers name = None"
    by (simp add: map_of_eq_None_iff)
  then show "process_app_message loads now a =
               Inr (send_event_to_app ''command_error''
                      [(''command'', JStr name), (''error'', JStr ''unknown_command'')]
                      (consume ''app'' a))"
    using h msg get_command_slot [OF slot]
    by (simp add: process_app_message_def consume_def split_def Let_def dispatch_command_def
        unknown_command_def)
qed

theorem protocol_misuse_witness:
  \<open>sample_loads ''hello'' = JSONDecodeError \<and>
   process_app_message sample_loads 10 (with_message ''app'' ''hello'' new_Application)
     = Inr (consume ''app'' (with_message ''app'' ''hello'' new_Application)) \<and>
   outbox (websocket_server (consume ''app'' (with_message ''app'' ''hello'' new_Application)))
     = [] \<and>
   parse_command sample_loads ''{"command": "fly"}''
     = Inr (JStr ''fly'', [(''command'', JStr ''fly'')]) \<and>
   ''fly'' \<notin> fst ` set command_handlers \<and>
   process_app_message sample_loads 10
       (with_message ''app'' ''{"command": "fly"}'' new_Application)
     = Inr (send_event_to_app ''command_error''
              [(''command'', JStr ''fly''), (''error'', JStr ''unknown_command'')]
              (consume ''app'' (with_message ''app'' ''{"command": "fly"}'' new_Application)))\<close>
proof -
  let ?a1 = \<open>with_message ''app'' ''hello'' new_Application\<close>
  let ?a2 = \<open>with_message ''app'' ''{"command": "fly"}'' new_Application\<close>
  have s1: \<open>client_messages (websocket_server ?a1) ''app''
              = Some \<lparr>message = ''hello'', timestamp = 0, just_connected = None\<rparr>\<close>
    by (simp add: sample_defs)
  have s2: \<open>client_messages (websocket_server ?a2) ''app''
              = Some \<lparr>message = ''{"command": "fly"}'', timestamp = 0,
                      just_connected = None\<rparr>\<close>
    by (simp add: sample_defs)
  have l1: "sample_loads ''hello'' = JSONDecodeError"
    by (simp add: sample_loads_def)
  have p2: \<open>parse_command sample_loads ''{"command": "fly"}''
              = Inr (JStr ''fly'', [(''command'', JStr ''fly'')])\<close>
    by (simp add: parse_command_def sample_loads_def dict_get_def)
  have n2: "''fly'' \<notin> fst ` set command_handlers"
    by (simp add: command_handlers_def)
  have o1: "outbox (websocket_server (consume ''app'' ?a1)) = []"
    by (simp add: consume_def sample_defs)
  show ?thesis
    using protocol_misuse [OF s1, where loads = sample_loads and now = 10] l1
          protocol_misuse [OF s2, where loads = sample_loads and name = "''fly''" and now = 10]
          p2 n2 o1
    by simp
qed

text \<open>
  A whole pass in IDLE over the frame \<open>hello\<close>, which is not JSON: the pass ends
  normally in IDLE and has sent nothing, so no \<open>command_error\<close> either.
\<close>

theorem not_json_no_event:
  "\<not> isl (tick sample_loads 10 (with_message ''app'' ''hello'' new_Application)) \<and>
   state (projr (tick sample_loads 10 (with_message ''app'' ''hello'' new_Application))) = IDLE \<and>
   outbox (websocket_server
     (projr (tick sample_loads 10 (with_message ''app'' ''hello'' new_Application)))) = []"
  by (simp add: tick_def idle_def greet_app_def track_veil_def process_app_message_def
      parse_command_def sample_loads_def is_client_just_connected_def get_command_def
      check_receiver_state_def check_hardware_errors_def check_carriage_timeouts_def
      check_carriage_bank_def
      check_carriage_bottle_def sample_defs status_getter_defs get_bit_cell_def Let_def)

text \<open>
  A frame on which the decoder raises another exception is outside the statement above:
  the exception leaves \<open>parse_command\<close> and ends the loop. Here the binary frame \<open>0xFF\<close>.
\<close>

lemma undecodable_frame_stops_loop:
  "tick sample_loads 10 (with_message ''app'' [CHR 0xFF] new_Application)
     = Inl UnicodeDecodeError"
  by (simp add: tick_def idle_def greet_app_def track_veil_def process_app_message_def
      parse_command_def sample_loads_def is_client_just_connected_def get_command_def
      check_carriage_timeouts_def check_carriage_bank_def
      check_carriage_bottle_def sample_defs status_getter_defs get_bit_cell_def Let_def)

section \<open>Latch clearing\<close>

lemmas cmd_defs =
  cmd_weight_error_reset_def cmd_reset_bank_counters_def cmd_reset_bottle_counters_def
  cmd_force_move_carriage_left_def cmd_force_move_carriage_right_def
  cmd_radxa_detected_bank_def cmd_radxa_detected_bottle_def
  cmd_radxa_stop_detected_bank_def cmd_radxa_stop_detected_bottle_def
  cmd_reset_weight_reading_def

lemmas loop_defs =
  tick_def environment_def update_data_def idle_def greet_app_def track_veil_def
  arm_inference_def process_app_message_def parse_command_def dispatch_command_def
  command_handlers_def handle_container_dump_def dict_get_def dict_set_def
  waiting_vision_def store_vision_response_def update_plc_detection_def decide_vision_def
  handle_vision_response_with_events_def handle_dumping_state_def
  handle_error_state_commands_def handle_get_device_info_def
  check_carriage_timeouts_def check_carriage_bottle_def check_carriage_bank_def
  check_receiver_state_def
  check_hardware_errors_def send_event_to_app_def send_to_client_def get_command_def
  is_client_just_connected_def get_bottle_count_def get_bank_count_def
  get_bottle_fill_percent_def get_bank_fill_percent_def
  vision_timeout_def dump_timeout_def carriage_reset_timeout_def
  cmd_defs cmd_set_def cmd_full_clear_register_def reset_all_bits_def set_bit_cell_def
  get_bit_cell_def poll_def sample_loads_def

lemma get_bit_zero: "get_bit_cell 0 n = 0"
  by (simp add: get_bit_cell_def)

text \<open>
  C6, as the code has it. A confirmed fusion sets the latch (command bit 7 for a bottle,
  6 for a bank), raises the matching flag and records the start time. The check at the
  top of the loop body, the bottle check followed by the bank check, lowers a latch and
  its flag in a pass at which the flag is up and more than \<open>carriage_reset_timeout\<close>,
  2.0 s, have passed since the recorded start time (for the bank latch: while the bottle
  flag is down), and changes nothing in a pass at which no more than that has passed.
  The full clear of the command word lowers both latches as well.
\<close>

theorem latch_clearing:
  "(carriage_moving_start_time a = Some t0 \<and> t0 \<noteq> 0 \<and> carriage_moving_bottle a \<and>
    now - t0 > carriage_reset_timeout \<longrightarrow>
      get_bit_cell (modbus_register_cmd (plc (check_carriage_timeouts now a))) 7 = 0 \<and>
      \<not> carriage_moving_bottle (check_carriage_timeouts now a)) \<and>
   (carriage_moving_start_time a = Some t0 \<and> t0 \<noteq> 0 \<and> carriage_moving_bank a \<and>
    \<not> carriage_moving_bottle a \<and> now - t0 > carriage_reset_timeout \<longrightarrow>
      get_bit_cell (modbus_register_cmd (plc (check_carriage_timeouts now a))) 6 = 0 \<and>
      \<not> carriage_moving_bank (check_carriage_timeouts now a)) \<and>
   (carriage_moving_start_time a = Some t0 \<and> now - t0 \<le> carriage_reset_timeout \<longrightarrow>
      check_carriage_timeouts now a = a) \<and>
   (current_plc_detection a = Some ''plastic'' \<and> t \<noteq> 0 \<and>
    now - t > carriage_reset_timeout \<longrightarrow>
      get_bit_cell (modbus_register_cmd
        (plc (handle_vision_response_with_events t ''plastic'' a))) 7 = 1 \<and>
      get_bit_cell (modbus_register_cmd (plc (check_carriage_timeouts now
        (handle_vision_response_with_events t ''plastic'' a)))) 7 = 0) \<and>
   (current_plc_detection a = Some ''aluminum'' \<and> \<not> carriage_moving_bottle a \<and> t \<noteq> 0 \<and>
    now - t > carriage_reset_timeout \<longrightarrow>
      get_bit_cell (modbus_register_cmd
        (plc (handle_vision_response_with_events t ''aluminum'' a))) 6 = 1 \<and>
      get_bit_cell (modbus_register_cmd (plc (check_carriage_timeouts now
        (handle_vision_response_with_events t ''aluminum'' a)))) 6 = 0) \<and>
   get_bit_cell (modbus_register_cmd (cmd_full_clear_register (plc a))) 6 = 0 \<and>
   get_bit_cell (modbus_register_cmd (cmd_full_clear_register (plc a))) 7 = 0"
proof -
  have bottle: "get_bit_cell (modbus_register_cmd (plc (check_carriage_timeouts now b))) 7 = 0
                \<and> \<not> carriage_moving_bottle (check_carriage_timeouts now b)"
    if "carriage_moving_start_time b = Some u" "u \<noteq> 0" "carriage_moving_bottle b"
       "now - u > carriage_reset_timeout" for b u
    using that
    by (simp add: check_carriage_timeouts_def check_carriage_bottle_def check_carriage_bank_def
        cmd_defs cmd_set_def get_bit_set_False)
  have bank: "get_bit_cell (modbus_register_cmd (plc (check_carriage_timeouts now b))) 6 = 0
              \<and> \<not> carriage_moving_bank (check_carriage_timeouts now b)"
    if "carriage_moving_start_time b = Some u" "u \<noteq> 0" "carriage_moving_bank b"
       "\<not> carriage_moving_bottle b" "now - u > carriage_reset_timeout" for b u
    using that
    by (simp add: check_carriage_timeouts_def check_carriage_bottle_def check_carriage_bank_def
        cmd_defs cmd_set_def get_bit_set_False)
  have early: "check_carriage_timeouts now a = a"
    if "carriage_moving_start_time a = Some t0" "now - t0 \<le> carriage_reset_timeout"
    using that
    by (simp add: check_carriage_timeouts_def check_carriage_bottle_def check_carriage_bank_def)
  have fused_bottle:
    "carriage_moving_start_time (handle_vision_response_with_events t ''plastic'' a) = Some t \<and>
     carriage_moving_bottle (handle_vision_response_with_events t ''plastic'' a) \<and>
     get_bit_cell (modbus_register_cmd
       (plc (handle_vision_response_with_events t ''plastic'' a))) 7 = 1"
    if "current_plc_detection a = Some ''plastic''"
    using that
    by (simp add: handle_vision_response_with_events_def send_event_to_app_def cmd_defs
        cmd_set_def get_bit_set_True)
  have fused_bank:
    "carriage_moving_start_time (handle_vision_response_with_events t ''aluminum'' a) = Some t \<and>
     carriage_moving_bank (handle_vision_response_with_events t ''aluminum'' a) \<and>
     carriage_moving_bottle (handle_vision_response_with_events t ''aluminum'' a)
       = carriage_moving_bottle a \<and>
     get_bit_cell (modbus_register_cmd
       (plc (handle_vision_response_with_events t ''aluminum'' a))) 6 = 1"
    if "current_plc_detection a = Some ''aluminum''"
    using that
    by (simp add: handle_vision_response_with_events_def send_event_to_app_def cmd_defs
        cmd_set_def get_bit_set_True)
  have clear:
    "get_bit_cell (modbus_register_cmd (cmd_full_clear_register (plc a))) 6 = 0"
    "get_bit_cell (modbus_register_cmd (cmd_full_clear_register (plc a))) 7 = 0"
    by (simp_all add: cmd_full_clear_register_def reset_all_bits_def get_bit_zero)
  show ?thesis
    using bottle [of a t0] bank [of a t0] early
      bottle [of "handle_vision_response_with_events t ''plastic'' a" t] fused_bottle
      bank [of "handle_vision_response_with_events t ''aluminum'' a" t] fused_bank clear
    by simp
qed

theorem latch_clearing_witness:
  "carriage_moving_start_time
     (new_Application\<lparr>carriage_moving_bottle := True, carriage_moving_start_time := Some 3,
                      plc := new_PLC\<lparr>modbus_register_cmd := 128\<rparr>\<rparr>) = Some 3 \<and>
   (3::real) \<noteq> 0 \<and> 5.5 - 3 > carriage_reset_timeout \<and> 5 - 3 \<le> carriage_reset_timeout \<and>
   get_bit_cell (modbus_register_cmd (plc (check_carriage_timeouts 5.5
     (new_Application\<lparr>carriage_moving_bottle := True, carriage_moving_start_time := Some 3,
                      plc := new_PLC\<lparr>modbus_register_cmd := 128\<rparr>\<rparr>)))) 7 = 0 \<and>
   check_carriage_timeouts 5
     (new_Application\<lparr>carriage_moving_bottle := True, carriage_moving_start_time := Some 3,
                      plc := new_PLC\<lparr>modbus_register_cmd := 128\<rparr>\<rparr>)
     = new_Application\<lparr>carriage_moving_bottle := True, carriage_moving_start_time := Some 3,
                       plc := new_PLC\<lparr>modbus_register_cmd := 128\<rparr>\<rparr> \<and>
   current_plc_detection (new_Application\<lparr>current_plc_detection := Some ''aluminum''\<rparr>)
     = Some ''aluminum'' \<and>
   \<not> carriage_moving_bottle (new_Application\<lparr>current_plc_detection := Some ''aluminum''\<rparr>) \<and>
   get_bit_cell (modbus_register_cmd (plc (handle_vision_response_with_events 3 ''aluminum''
     (new_Application\<lparr>current_plc_detection := Some ''aluminum''\<rparr>)))) 6 = 1 \<and>
   get_bit_cell (modbus_register_cmd (plc (check_carriage_timeouts 5.5
     (handle_vision_response_with_events 3 ''aluminum''
        (new_Application\<lparr>current_plc_detection := Some ''aluminum''\<rparr>))))) 6 = 0"
  using latch_clearing
          [of "new_Application\<lparr>carriage_moving_bottle := True,
                 carriage_moving_start_time := Some 3,
                 plc := new_PLC\<lparr>modbus_register_cmd := 128\<rparr>\<rparr>" 3 "5.5" 3]
        latch_clearing
          [of "new_Application\<lparr>carriage_moving_bottle := True,
                 carriage_moving_start_time := Some 3,
                 plc := new_PLC\<lparr>modbus_register_cmd := 128\<rparr>\<rparr>" 3 5 3]
        latch_clearing
          [of "new_Application\<lparr>current_plc_detection := Some ''aluminum''\<rparr>" 3 "5.5" 3]
  by (simp add: carriage_reset_timeout_def new_Application_def)

text \<open>
  What the statement above leaves open: with both flags up and the shared start time
  expired, the bottle check lowers bit 7 and sets the start time to \<open>None\<close>, and the bank
  check, which comes after it, is skipped: bit 6 and the bank flag stay as they were.
\<close>

lemma bank_latch_kept_when_both_armed:
  assumes "carriage_moving_start_time a = Some t0" and "t0 \<noteq> 0"
    and "carriage_moving_bottle a" and "carriage_moving_bank a"
    and "now - t0 > carriage_reset_timeout"
  shows "get_bit_cell (modbus_register_cmd (plc (check_carriage_timeouts now a))) 6
           = get_bit_cell (modbus_register_cmd (plc a)) 6 \<and>
         carriage_moving_bank (check_carriage_timeouts now a) \<and>
         carriage_moving_start_time (check_carriage_timeouts now a) = None"
  using assms
  by (simp add: check_carriage_timeouts_def check_carriage_bottle_def check_carriage_bank_def
      cmd_defs cmd_set_def get_bit_set_other)

lemma dump_trace_armed:
  "\<exists>a'. run sample_loads new_Application (take 2 dump_trace) = Inr a' \<and>
        modbus_register_cmd (plc a') = 0"
  by (simp add: dump_trace_def loop_defs sample_defs status_getter_defs Let_def)

lemma dump_trace_fused:
  "\<exists>a'. run sample_loads new_Application (take 3 dump_trace) = Inr a' \<and>
        modbus_register_cmd (plc a') = 128"
  by (simp add: dump_trace_def loop_defs sample_defs status_getter_defs Let_def)

lemma dump_trace_after:
  "\<exists>a'. run sample_loads new_Application dump_trace = Inr a' \<and>
        modbus_register_cmd (plc a') = 0 \<and> carriage_moving_bottle a' \<and>
        carriage_moving_start_time a' = Some 3"
  by (simp add: dump_trace_def loop_defs sample_defs status_getter_defs Let_def)

lemma occupancy_trace_latch:
  "\<exists>a'. run sample_loads new_Application occupancy_trace = Inr a' \<and>
        modbus_register_cmd (plc a') = 128 \<and> carriage_moving_start_time a' = Some 3"
  by (simp add: occupancy_trace_def loop_defs sample_defs status_getter_defs Let_def)

text \<open>
  Two runs with the same first three passes: bit 7 is down after the pass at time 2 and
  is set by the pass at time 3. In \<open>dump_trace\<close> the pass at time 4 completes the dump and
  clears the whole command word, one second after the latch was set, while the flag
  \<open>carriage_moving_bottle\<close> is still up: the latch was lowered by the full clear, not by
  the timeout check. In \<open>occupancy_trace\<close> the pass at time 5, 2.0 s after the latch was
  set, leaves bit 7 set: the check asks for more than 2.0 s.
\<close>

theorem latch_full_clear_and_boundary:
  "take 3 occupancy_trace = take 3 dump_trace \<and>
   get_bit_cell (modbus_register_cmd
     (plc (projr (run sample_loads new_Application (take 2 dump_trace))))) 7 = 0 \<and>
   get_bit_cell (modbus_register_cmd
     (plc (projr (run sample_loads new_Application (take 3 dump_trace))))) 7 = 1 \<and>
   \<not> isl (run sample_loads new_Application dump_trace) \<and>
   get_bit_cell (modbus_register_cmd
     (plc (projr (run sample_loads new_Application dump_trace)))) 7 = 0 \<and>
   carriage_moving_bottle (projr (run sample_loads new_Application dump_trace)) \<and>
   carriage_moving_start_time (projr (run sample_loads new_Application dump_trace)) = Some 3 \<and>
   \<not> isl (run sample_loads new_Application occupancy_trace) \<and>
   carriage_moving_start_time (projr (run sample_loads new_Application occupancy_trace))
     = Some 3 \<and>
   get_bit_cell (modbus_register_cmd
     (plc (projr (run sample_loads new_Application occupancy_trace)))) 7 = 1"
proof -
  obtain a2 where a2: "run sample_loads new_Application (take 2 dump_trace) = Inr a2"
    "modbus_register_cmd (plc a2) = 0"
    using dump_trace_armed by blast
  obtain a3 where a3: "run sample_loads new_Application (take 3 dump_trace) = Inr a3"
    "modbus_register_cmd (plc a3) = 128"
    using dump_trace_fused by blast
  obtain c where c: "run sample_loads new_Application dump_trace = Inr c"
    "modbus_register_cmd (plc c) = 0" "carriage_moving_bottle c"
    "carriage_moving_start_time c = Some 3"
    using dump_trace_after by blast
  obtain d where d: "run sample_loads new_Application occupancy_trace = Inr d"
    "modbus_register_cmd (plc d) = 128" "carriage_moving_start_time d = Some 3"
    using occupancy_trace_latch by blast
  have e: "take 3 occupancy_trace = take 3 dump_trace"
    by (simp add: occupancy_trace_def dump_trace_def)
  show ?thesis using a2 a3 c d e by (simp add: get_bit_cell_def)
qed

section \<open>One inference request for each occupancy\<close>

lemma status_cmd_set [simp]:
  "modbus_register_status (cmd_set n b p) = modbus_register_status p"
  by (simp add: cmd_set_def)

lemma status_full_clear [simp]:
  "modbus_register_status (cmd_full_clear_register p) = modbus_register_status p"
  by (simp add: cmd_full_clear_register_def)

lemma outbox_is_client_just_connected [simp]:
  "outbox (snd (is_client_just_connected n h)) = outbox h"
  by (simp add: is_client_just_connected_def split: option.splits)

lemmas gv_defs =
  guard_view_def vision_requests_def send_event_to_app_def send_to_client_def
  is_vision_request_def

lemma gv_send_event [simp]: "guard_view (send_event_to_app e d a) = guard_view a"
  by (simp add: gv_defs)

lemma gv_hub_slot [simp]:
  "guard_view (a\<lparr>websocket_server := snd (get_command n (websocket_server a))\<rparr>) = guard_view a"
  "guard_view (a\<lparr>websocket_server := snd (is_client_just_connected n (websocket_server a))\<rparr>)
     = guard_view a"
  by (simp_all add: guard_view_def vision_requests_def)

lemma gv_fields [simp]:
  "guard_view (a\<lparr>state := s\<rparr>) = guard_view a"
  "guard_view (a\<lparr>vision_request_time := t\<rparr>) = guard_view a"
  "guard_view (a\<lparr>veil_cleared_time := t\<rparr>) = guard_view a"
  "guard_view (a\<lparr>current_plc_detection := d\<rparr>) = guard_view a"
  "guard_view (a\<lparr>pending_vision_response := d\<rparr>) = guard_view a"
  "guard_view (a\<lparr>prev_receiver_state := i\<rparr>) = guard_view a"
  "guard_view (a\<lparr>prev_weight_error := i\<rparr>) = guard_view a"
  "guard_view (a\<lparr>prev_weight_too_small := i\<rparr>) = guard_view a"
  "guard_view (a\<lparr>prev_left_movement_error := i\<rparr>) = guard_view a"
  "guard_view (a\<lparr>prev_right_movement_error := i\<rparr>) = guard_view a"
  by (simp_all add: guard_view_def vision_requests_def)

lemma gv_handle_dumping_state:
  "handle_dumping_state now st a = Inr a' \<Longrightarrow> guard_view a' = guard_view a"
  by (auto simp add: handle_dumping_state_def Let_def gv_defs split: option.splits if_splits)

lemma gv_check_carriage [simp]:
  "guard_view (check_carriage_bottle now a) = guard_view a"
  "guard_view (check_carriage_bank now a) = guard_view a"
  by (simp_all add: check_carriage_bottle_def check_carriage_bank_def cmd_defs guard_view_def
      vision_requests_def split: option.splits)

lemma gv_check_carriage_timeouts [simp]:
  "guard_view (check_carriage_timeouts now a) = guard_view a"
  by (simp add: check_carriage_timeouts_def)

lemma gv_handle_vision_response [simp]:
  "guard_view (handle_vision_response_with_events now v a) = guard_view a"
  by (simp add: handle_vision_response_with_events_def cmd_defs gv_defs)

lemma gv_store_vision_response [simp]:
  "guard_view (store_vision_response a) = guard_view a"
  by (simp add: store_vision_response_def Let_def split_def)

lemma gv_update_plc_detection [simp]:
  "guard_view (update_plc_detection a) = guard_view a"
  by (simp add: update_plc_detection_def)

lemma gv_waiting_vision:
  "waiting_vision now a = Inr a' \<Longrightarrow> guard_view a' = guard_view a"
  by (auto simp add: waiting_vision_def decide_vision_def split: option.splits if_splits)

lemma gv_handlers [simp]:
  "guard_view (handle_get_photo a) = guard_view a"
  "guard_view (handle_get_device_info a) = guard_view a"
  "guard_view (handle_device_init j a) = guard_view a"
  "guard_view (handle_container_dump now j a) = guard_view a"
  "guard_view (handle_container_unloaded j a) = guard_view a"
  "guard_view (handle_lock_door a) = guard_view a"
  "guard_view (handle_unlock_door a) = guard_view a"
  "guard_view (handle_stub_command n a) = guard_view a"
  "guard_view (unknown_command j a) = guard_view a"
  by (simp_all add: handle_get_photo_def handle_get_device_info_def handle_device_init_def
      handle_container_dump_def handle_container_unloaded_def handle_lock_door_def
      handle_unlock_door_def handle_stub_command_def unknown_command_def cmd_defs gv_defs)

lemma gv_plc [simp]:
  "guard_view (a\<lparr>plc := cmd_set n b (plc a)\<rparr>) = guard_view a"
  "guard_view (a\<lparr>plc := cmd_full_clear_register (plc a)\<rparr>) = guard_view a"
  by (simp_all add: guard_view_def vision_requests_def)

lemma gv_call0: "call0 h a = Inr a' \<Longrightarrow> guard_view a' = guard_view a"
  by (cases h) (auto simp add: cmd_defs)

lemma gv_call1: "call1 h now j a = Inr a' \<Longrightarrow> guard_view a' = guard_view a"
  by (cases h) auto

lemma gv_dispatch_command:
  "dispatch_command now c params a = Inr (a', b) \<Longrightarrow> guard_view a' = guard_view a"
  by (auto simp add: dispatch_command_def split: jval.splits option.splits if_splits sum.splits
      dest: gv_call0 gv_call1)

lemma gv_process_app_message:
  "process_app_message loads now a = Inr a' \<Longrightarrow> guard_view a' = guard_view a"
  by (auto simp add: process_app_message_def Let_def split_def
      split: if_splits sum.splits dest!: gv_dispatch_command)

lemma gv_handle_error_state_commands:
  "handle_error_state_commands loads now a = Inr a' \<Longrightarrow> guard_view a' = guard_view a"
  by (auto simp add: handle_error_state_commands_def Let_def split_def
      split: if_splits sum.splits)

lemma gv_greet_app [simp]: "guard_view (greet_app a) = guard_view a"
  by (simp add: greet_app_def Let_def split_def)

lemma gv_check_receiver_state [simp]: "guard_view (check_receiver_state a) = guard_view a"
  by (simp add: check_receiver_state_def Let_def)

lemma gv_check_hardware_errors [simp]: "guard_view (check_hardware_errors a) = guard_view a"
  by (simp add: check_hardware_errors_def Let_def)

lemma guarded_same: "guard_view a' = guard_view a \<Longrightarrow> guarded a a'"
  by (simp add: guarded_def guard_view_def budget_def)

lemma guarded_trans: "guarded a b \<Longrightarrow> guarded b c \<Longrightarrow> guarded a c"
  by (auto simp add: guarded_def)

lemma vision_requests_arm:
  "length (filter is_vision_request (outbox (websocket_server (arm_inference now a)))) =
     Suc (length (filter is_vision_request (outbox (websocket_server a))))"
  by (simp add: arm_inference_def send_event_to_app_def send_to_client_def
      is_vision_request_def Let_def split_def)

lemma arm_inference_keeps:
  "inference_requested (arm_inference now a)"
  "plc (arm_inference now a) = plc a"
  by (simp_all add: arm_inference_def Let_def split_def send_event_to_app_def)

lemma guarded_track_veil:
  assumes "receiver_occupied (modbus_register_status (plc a))"
  shows "guarded a (track_veil now a)"
  using assms
  by (auto simp add: guarded_def budget_def track_veil_def Let_def receiver_occupied_def
      get_bottle_exist_def get_bank_exist_def vision_requests_arm arm_inference_keeps
      vision_requests_def)

lemma guarded_tick:
  assumes t: "tick loads now a = Inr a'"
    and occ: "receiver_occupied (modbus_register_status (plc a))"
  shows "guarded a a'"
proof -
  obtain a1 where a1: "(if state a = DUMPING_PLASTIC \<or> state a = DUMPING_ALUMINUM
                        then handle_dumping_state now (state a) a else Inr a) = Inr a1"
    using t by (auto simp add: tick_def split: sum.splits)
  have g1: "guard_view a1 = guard_view a"
    using a1 by (auto split: if_splits dest: gv_handle_dumping_state)
  define a2 where "a2 = check_carriage_timeouts now a1"
  have g2: "guard_view a2 = guard_view a" by (simp add: a2_def g1)
  then have occ2: "receiver_occupied (modbus_register_status (plc a2))"
    using occ by (simp add: guard_view_def)
  obtain a3 where a3: "(if state a2 = WAITING_VISION then waiting_vision now a2
                    else if state a2 = ERROR then handle_error_state_commands loads now a2
                    else if state a2 = IDLE then idle loads now a2
                    else Inr a2) = Inr a3"
    and a': "a' = check_hardware_errors (check_receiver_state a3)"
    using t a1 unfolding a2_def by (auto simp add: tick_def Let_def split: sum.splits)
  have "guarded a2 a3"
  proof (cases "state a2 = IDLE")
    case True
    then have i: "process_app_message loads now (track_veil now (greet_app a2)) = Inr a3"
      using a3 by (simp add: idle_def)
    have "receiver_occupied (modbus_register_status (plc (greet_app a2)))"
      using occ2 gv_greet_app [of a2] by (simp add: guard_view_def)
    then have "guarded (greet_app a2) (track_veil now (greet_app a2))"
      by (rule guarded_track_veil)
    moreover have "guarded a2 (greet_app a2)" by (simp add: guarded_same)
    moreover have "guarded (track_veil now (greet_app a2)) a3"
      using gv_process_app_message [OF i] by (rule guarded_same)
    ultimately show ?thesis by (blast intro: guarded_trans)
  next
    case False
    then have "guard_view a3 = guard_view a2"
      using a3 by (auto split: if_splits dest: gv_waiting_vision gv_handle_error_state_commands)
    then show ?thesis by (rule guarded_same)
  qed
  moreover have "guarded a a2" using g2 by (rule guarded_same)
  moreover have "guarded a3 a'" by (simp add: a' guarded_same)
  ultimately show ?thesis by (blast intro: guarded_trans)
qed

lemma environment_keeps:
  "inference_requested (environment i a) = inference_requested a"
  "modbus_register_status (plc (environment i a)) = dev_status (device i)"
  by (simp_all add: environment_def update_data_def)

lemma outbox_hub_step [simp]: "outbox (hub_step now e h) = outbox h"
  by (cases e) (simp_all add: register_client_def on_message_def disconnect_def)

lemma outbox_fold_hub_step [simp]: "outbox (fold (hub_step now) es h) = outbox h"
  by (induction es arbitrary: h) simp_all

lemma vision_requests_environment [simp]:
  "vision_requests (environment i a) = vision_requests a"
  by (simp add: environment_def vision_requests_def)

text \<open>
  C5, as the code has it. Over any run in which every poll shows the receiver occupied
  (the bottle bit or the bank bit is 1), the coordinator sends at most one inference
  request, and none at all when the guard \<open>inference_requested\<close> was already up: the
  guard stays up, so a further veil falling edge does not arm WAITING_VISION again. The
  guard can be lowered only in a pass whose poll shows the receiver empty; it is also
  down from the start, before the first arming, whether or not the receiver is occupied.
\<close>

theorem one_request_per_occupancy:
  assumes "run loads a inputs = Inr a'"
    and "\<forall>i \<in> set inputs. receiver_occupied (dev_status (device i))"
  shows "vision_requests a' \<le> vision_requests a + (if inference_requested a then 0 else 1) \<and>
         (inference_requested a \<longrightarrow>
            inference_requested a' \<and> vision_requests a' = vision_requests a)"
proof -
  have "(inference_requested a \<longrightarrow>
           inference_requested a' \<and> vision_requests a' = vision_requests a)
        \<and> budget a' \<le> budget a"
    using assms
  proof (induction inputs arbitrary: a)
    case Nil
    then show ?case by simp
  next
    case (Cons i rest)
    from Cons.prems(1) obtain b where
      b: "tick loads (at_time i) (environment i a) = Inr b" and r: "run loads b rest = Inr a'"
      by (auto split: sum.splits)
    have "receiver_occupied (modbus_register_status (plc (environment i a)))"
      using Cons.prems(2) by (simp add: environment_keeps)
    from guarded_tick [OF b this]
    have 1: "inference_requested a \<longrightarrow>
               inference_requested b \<and> vision_requests b = vision_requests a"
      and 2: "budget b \<le> budget a"
      by (simp_all add: guarded_def environment_keeps budget_def)
    have 3: "(inference_requested b \<longrightarrow>
                inference_requested a' \<and> vision_requests a' = vision_requests b)
             \<and> budget a' \<le> budget b"
      using Cons.IH [OF r] Cons.prems(2) by simp
    show ?case using 1 2 3 by auto
  qed
  then show ?thesis by (auto simp add: budget_def split: if_splits)
qed

lemma occupancy_trace_result:
  "\<exists>a'. run sample_loads new_Application occupancy_trace = Inr a' \<and>
        vision_requests a' = 1 \<and> state a' = IDLE \<and> inference_requested a'"
  by (simp add: occupancy_trace_def loop_defs sample_defs status_getter_defs
      vision_requests_def is_vision_request_def Let_def)

theorem one_request_per_occupancy_witness:
  "map (receiver_occupied \<circ> dev_status \<circ> device) occupancy_trace
     = [True, True, True, True, True] \<and>
   \<not> isl (run sample_loads new_Application occupancy_trace) \<and>
   vision_requests (projr (run sample_loads new_Application occupancy_trace))
     \<le> vision_requests new_Application + 1 \<and>
   vision_requests new_Application = 0"
proof -
  obtain a' where r: "run sample_loads new_Application occupancy_trace = Inr a'"
    using occupancy_trace_result by blast
  have occ: "\<forall>i \<in> set occupancy_trace. receiver_occupied (dev_status (device i))"
    by (simp add: occupancy_trace_def poll_def receiver_occupied_def get_bit_cell_def)
  have n: "\<not> inference_requested new_Application" "vision_requests new_Application = 0"
    by (simp_all add: new_Application_def new_WebSocket_def vision_requests_def)
  have m: "map (receiver_occupied \<circ> dev_status \<circ> device) occupancy_trace
             = [True, True, True, True, True]"
    by (simp add: occupancy_trace_def poll_def receiver_occupied_def get_bit_cell_def)
  show ?thesis
    using one_request_per_occupancy [OF r occ] r m n by simp
qed

text \<open>
  A pass in IDLE from the initial state with a bottle in the receiver (status word 128):
  afterwards the state is IDLE, the receiver is occupied and the guard is down. So the
  guard being down in IDLE does not mean that the receiver is empty.
\<close>

theorem guard_down_receiver_occupied:
  "\<not> isl (tick sample_loads 1 (with_status 128 new_Application)) \<and>
   state (projr (tick sample_loads 1 (with_status 128 new_Application))) = IDLE \<and>
   \<not> inference_requested (projr (tick sample_loads 1 (with_status 128 new_Application))) \<and>
   receiver_occupied (modbus_register_status
     (plc (projr (tick sample_loads 1 (with_status 128 new_Application)))))"
  by (simp add: loop_defs sample_defs status_getter_defs receiver_occupied_def Let_def)

end
